theory Spec2Isabelle
  imports Complex_Main
begin

section \<open>JavaScript values\<close>

text \<open>
  The two endpoints \<^verbatim>\<open>pages/api/evaluateAnswer.ts\<close> and
  \<^verbatim>\<open>pages/api/generateExercise.ts\<close> exist in several variants. Every variant reads an
  untyped request body (\<^verbatim>\<open>req.body\<close> has type \<^verbatim>\<open>any\<close>) and the untyped result of
  \<^verbatim>\<open>JSON.parse\<close>, so the values the code works on are JavaScript values.

  A number is a double. A finite double is modelled by the rational it denotes; \<^verbatim>\<open>NaN\<close> and
  the two infinities are separate values. \<^verbatim>\<open>Math.floor\<close>, \<^verbatim>\<open>Math.round\<close>,
  \<^verbatim>\<open>Math.min\<close>, \<^verbatim>\<open>Math.max\<close> and the comparisons are exact on doubles, so they are
  the rational operations. The sign of zero is not modelled (no operation below tells the two
  zeros apart).

  A string is a list of code units; the model has the code units \<^verbatim>\<open>U+0000\<close> to
  \<^verbatim>\<open>U+00FF\<close>, which covers every string literal of the sources.
\<close>

datatype jsnum = NaN | PosInf | NegInf | Fin rat

datatype jsval =
    JUndefined
  | JNull
  | JBool bool
  | JNum jsnum
  | JStr string
  | JArr "jsval list"
  | JObj "(string \<times> jsval) list"

datatype exn = TypeError | SyntaxError | ExternalFailure

subsection \<open>Numbers\<close>

text \<open>\<^verbatim>\<open>a < b\<close> and \<^verbatim>\<open>a > b\<close> on numbers: false as soon as one side is \<^verbatim>\<open>NaN\<close>.\<close>

fun num_lt :: "jsnum \<Rightarrow> jsnum \<Rightarrow> bool" where
  "num_lt NaN _ = False"
| "num_lt _ NaN = False"
| "num_lt PosInf _ = False"
| "num_lt _ NegInf = False"
| "num_lt NegInf _ = True"
| "num_lt _ PosInf = True"
| "num_lt (Fin a) (Fin b) = (a < b)"

definition num_gt :: "jsnum \<Rightarrow> jsnum \<Rightarrow> bool" where
  "num_gt a b = num_lt b a"

definition num_le :: "jsnum \<Rightarrow> jsnum \<Rightarrow> bool" where
  "num_le a b = (a \<noteq> NaN \<and> b \<noteq> NaN \<and> \<not> num_lt b a)"

definition num_ge :: "jsnum \<Rightarrow> jsnum \<Rightarrow> bool" where
  "num_ge a b = num_le b a"

fun math_floor :: "jsnum \<Rightarrow> jsnum" where
  "math_floor (Fin x) = Fin (of_int \<lfloor>x\<rfloor>)"
| "math_floor n = n"

text \<open>\<^verbatim>\<open>Math.round\<close> rounds to the nearest integer, a tie going up.\<close>

fun math_round :: "jsnum \<Rightarrow> jsnum" where
  "math_round (Fin x) = Fin (of_int (round x))"
| "math_round n = n"

definition math_min :: "jsnum \<Rightarrow> jsnum \<Rightarrow> jsnum" where
  "math_min a b = (if a = NaN \<or> b = NaN then NaN else if num_lt b a then b else a)"

definition math_max :: "jsnum \<Rightarrow> jsnum \<Rightarrow> jsnum" where
  "math_max a b = (if a = NaN \<or> b = NaN then NaN else if num_lt a b then b else a)"

text \<open>\<^verbatim>\<open>Number.isFinite\<close> and \<^verbatim>\<open>Number.isNaN\<close> do not convert their argument.\<close>

fun Number_isFinite :: "jsval \<Rightarrow> bool" where
  "Number_isFinite (JNum (Fin x)) = True"
| "Number_isFinite _ = False"

definition Number_isNaN :: "jsval \<Rightarrow> bool" where
  "Number_isNaN v = (v = JNum NaN)"

subsection \<open>Strings\<close>

text \<open>White space of \<^verbatim>\<open>String.prototype.trim\<close> and of the regular expression class
  \<^verbatim>\<open>\s\<close>, among the code units below 256.\<close>

definition js_ws :: "char \<Rightarrow> bool" where
  "js_ws c = (of_char c \<in> {9, 10, 11, 12, 13, 32, 160 :: nat})"

definition trim :: "string \<Rightarrow> string" where
  "trim s = rev (dropWhile js_ws (rev (dropWhile js_ws s)))"

definition startsWith :: "string \<Rightarrow> string \<Rightarrow> bool" where
  "startsWith s p = (take (length p) s = p)"

definition endsWith :: "string \<Rightarrow> string \<Rightarrow> bool" where
  "endsWith s p = (length p \<le> length s \<and> drop (length s - length p) s = p)"

fun includes_str :: "string \<Rightarrow> string \<Rightarrow> bool" where
  "includes_str [] p = (p = [])"
| "includes_str (c # cs) p = (startsWith (c # cs) p \<or> includes_str cs p)"

text \<open>\<^verbatim>\<open>toLowerCase\<close> on the code units below 256: the ASCII capitals and the capitals
  \<^verbatim>\<open>U+00C0\<close> to \<^verbatim>\<open>U+00DE\<close> (the multiplication sign \<^verbatim>\<open>U+00D7\<close> apart).\<close>

definition lower_char :: "char \<Rightarrow> char" where
  "lower_char c =
     (let n = (of_char c :: nat)
      in if (65 \<le> n \<and> n \<le> 90) \<or> (192 \<le> n \<and> n \<le> 222 \<and> n \<noteq> 215)
         then char_of (n + 32) else c)"

definition toLowerCase :: "string \<Rightarrow> string" where
  "toLowerCase s = map lower_char s"

definition is_digit :: "char \<Rightarrow> bool" where
  "is_digit c = (48 \<le> (of_char c :: nat) \<and> (of_char c :: nat) \<le> 57)"

definition is_alpha :: "char \<Rightarrow> bool" where
  "is_alpha c =
     (let n = (of_char c :: nat) in (65 \<le> n \<and> n \<le> 90) \<or> (97 \<le> n \<and> n \<le> 122))"

subsection \<open>Conversion of a string to a number\<close>

text \<open>
  \<^verbatim>\<open>StringToNumber\<close> of the language standard: white space is trimmed, the empty string is
  0, then an optionally signed decimal literal (with \<^verbatim>\<open>Infinity\<close>, a fraction and an
  exponent) or an unsigned binary, octal or hexadecimal integer; everything else is
  \<^verbatim>\<open>NaN\<close>. The literal denotes its exact value (the rounding to the nearest double is not
  modelled), except that a magnitude beyond the largest double becomes an infinity.
\<close>

definition digit_val :: "char \<Rightarrow> nat" where
  "digit_val c =
     (let n = (of_char c :: nat)
      in if 48 \<le> n \<and> n \<le> 57 then n - 48
         else if 97 \<le> n \<and> n \<le> 102 then n - 87
         else if 65 \<le> n \<and> n \<le> 70 then n - 55
         else 255)"

definition digits_in :: "nat \<Rightarrow> string \<Rightarrow> bool" where
  "digits_in radix s = (s \<noteq> [] \<and> list_all (\<lambda>c. digit_val c < radix) s)"

definition digits_value :: "nat \<Rightarrow> string \<Rightarrow> nat" where
  "digits_value radix s = foldl (\<lambda>acc c. acc * radix + digit_val c) 0 s"

definition double_range :: "rat \<Rightarrow> jsnum" where
  "double_range x =
     (if 2 ^ 1024 - 2 ^ 970 \<le> x then PosInf
      else if x \<le> - (2 ^ 1024 - 2 ^ 970) then NegInf
      else Fin x)"

definition is_e :: "char \<Rightarrow> bool" where
  "is_e c = (c = CHR ''e'' \<or> c = CHR ''E'')"

text \<open>The exponent part after the \<^verbatim>\<open>e\<close>: an optional sign and at least one digit.\<close>

definition exponent_of :: "string \<Rightarrow> int option" where
  "exponent_of s =
     (case s of
        [] \<Rightarrow> None
      | c # r \<Rightarrow>
          if c = CHR ''+'' then (if digits_in 10 r then Some (int (digits_value 10 r)) else None)
          else if c = CHR ''-'' then (if digits_in 10 r then Some (- int (digits_value 10 r)) else None)
          else if digits_in 10 s then Some (int (digits_value 10 s)) else None)"

text \<open>The mantissa: digits, optionally a point and more digits, at least one digit in all.
  The result is the value and the number of digits after the point.\<close>

definition mantissa_of :: "string \<Rightarrow> (nat \<times> nat) option" where
  "mantissa_of s =
     (let ip = takeWhile (\<lambda>c. c \<noteq> CHR ''.'') s;
          rest = dropWhile (\<lambda>c. c \<noteq> CHR ''.'') s
      in case rest of
           [] \<Rightarrow> if digits_in 10 ip then Some (digits_value 10 ip, 0) else None
         | _ # fp \<Rightarrow>
             if list_all is_digit ip \<and> list_all is_digit fp \<and> ip @ fp \<noteq> []
             then Some (digits_value 10 (ip @ fp), length fp) else None)"

definition unsigned_decimal :: "string \<Rightarrow> rat option" where
  "unsigned_decimal s =
     (let m = takeWhile (\<lambda>c. \<not> is_e c) s;
          rest = dropWhile (\<lambda>c. \<not> is_e c) s
      in case mantissa_of m of
           None \<Rightarrow> None
         | Some (v, k) \<Rightarrow>
             (case rest of
                [] \<Rightarrow> Some (of_nat v / 10 ^ k)
              | _ # ex \<Rightarrow>
                  (case exponent_of ex of
                     None \<Rightarrow> None
                   | Some e \<Rightarrow> Some (of_nat v / 10 ^ k * (if 0 \<le> e then 10 ^ nat e else 1 / 10 ^ nat (- e))))))"

definition str_decimal :: "string \<Rightarrow> jsnum" where
  "str_decimal s =
     (if s = ''Infinity'' then PosInf
      else case unsigned_decimal s of None \<Rightarrow> NaN | Some x \<Rightarrow> double_range x)"

fun negate :: "jsnum \<Rightarrow> jsnum" where
  "negate (Fin x) = Fin (- x)"
| "negate PosInf = NegInf"
| "negate NegInf = PosInf"
| "negate NaN = NaN"

definition radix_prefix :: "string \<Rightarrow> nat option" where
  "radix_prefix s =
     (if take 2 s \<in> {''0x'', ''0X''} then Some 16
      else if take 2 s \<in> {''0o'', ''0O''} then Some 8
      else if take 2 s \<in> {''0b'', ''0B''} then Some 2
      else None)"

definition stringToNumber :: "string \<Rightarrow> jsnum" where
  "stringToNumber s =
     (let t = trim s
      in case t of
           [] \<Rightarrow> Fin 0
         | c # r \<Rightarrow>
             if c = CHR ''+'' then str_decimal r
             else if c = CHR ''-'' then negate (str_decimal r)
             else (case radix_prefix t of
                     Some radix \<Rightarrow>
                       if digits_in radix (drop 2 t)
                       then double_range (of_nat (digits_value radix (drop 2 t))) else NaN
                   | None \<Rightarrow> str_decimal t))"

subsection \<open>Truthiness, property access, conversion of a value to a number\<close>

fun truthy :: "jsval \<Rightarrow> bool" where
  "truthy JUndefined = False"
| "truthy JNull = False"
| "truthy (JBool b) = b"
| "truthy (JNum n) = (n \<noteq> NaN \<and> n \<noteq> Fin 0)"
| "truthy (JStr s) = (s \<noteq> [])"
| "truthy (JArr _) = True"
| "truthy (JObj _) = True"

definition nullish :: "jsval \<Rightarrow> bool" where
  "nullish v = (v = JUndefined \<or> v = JNull)"

text \<open>
  \<^verbatim>\<open>v.name\<close> for the property names the handlers read (\<^verbatim>\<open>statement\<close>,
  \<^verbatim>\<open>userAnswer\<close>, \<^verbatim>\<open>imageUrl\<close>, \<^verbatim>\<open>subtopicName\<close>, \<^verbatim>\<open>subtopicId\<close>,
  \<^verbatim>\<open>difficulty\<close>, \<^verbatim>\<open>exerciseIndex\<close>, \<^verbatim>\<open>result\<close>, \<^verbatim>\<open>score\<close>,
  \<^verbatim>\<open>feedbackSummary\<close>, \<^verbatim>\<open>exerciseType\<close>): none of them is inherited from a prototype,
  so the value is the object's own property or \<^verbatim>\<open>undefined\<close>. On \<^verbatim>\<open>null\<close> and
  \<^verbatim>\<open>undefined\<close> the access (and a destructuring) raises a \<^verbatim>\<open>TypeError\<close>; the callers test
  \<open>nullish\<close> first.
\<close>

fun getProp :: "jsval \<Rightarrow> string \<Rightarrow> jsval" where
  "getProp (JObj kvs) k = (case map_of kvs k of Some v \<Rightarrow> v | None \<Rightarrow> JUndefined)"
| "getProp _ k = JUndefined"

text \<open>
  Conversion of an object to a primitive. An object built by \<^verbatim>\<open>JSON.parse\<close> has no callable
  property of its own, so a key \<^verbatim>\<open>toString\<close> of its own hides the inherited method and the
  conversion raises a \<^verbatim>\<open>TypeError\<close>; without it the object converts to
  \<^verbatim>\<open>[object Object]\<close>. An array converts to its elements joined by commas, \<^verbatim>\<open>null\<close>
  and \<^verbatim>\<open>undefined\<close> elements giving the empty string.
\<close>

fun toStringThrows :: "jsval \<Rightarrow> bool" where
  "toStringThrows (JObj kvs) = (map_of kvs ''toString'' \<noteq> None)"
| "toStringThrows (JArr xs) = (\<exists>x \<in> set xs. toStringThrows x)"
| "toStringThrows _ = False"

fun toNumber :: "jsval \<Rightarrow> exn + jsnum" where
  "toNumber JUndefined = Inr NaN"
| "toNumber JNull = Inr (Fin 0)"
| "toNumber (JBool b) = Inr (Fin (if b then 1 else 0))"
| "toNumber (JNum n) = Inr n"
| "toNumber (JStr s) = Inr (stringToNumber s)"
| "toNumber (JObj kvs) = (if toStringThrows (JObj kvs) then Inl TypeError else Inr NaN)"
| "toNumber (JArr []) = Inr (Fin 0)"
| "toNumber (JArr [x]) =
     (case x of
        JUndefined \<Rightarrow> Inr (Fin 0)
      | JNull \<Rightarrow> Inr (Fin 0)
      | JBool b \<Rightarrow> Inr NaN
      | JNum n \<Rightarrow> Inr n
      | JStr s \<Rightarrow> Inr (stringToNumber s)
      | JArr ys \<Rightarrow> toNumber (JArr ys)
      | JObj kvs \<Rightarrow> toNumber (JObj kvs))"
| "toNumber (JArr (x # y # zs)) =
     (if toStringThrows (JArr (x # y # zs)) then Inl TypeError else Inr NaN)"

section \<open>Functions shared by the variants\<close>

subsection \<open>\<^verbatim>\<open>sanitizeExerciseIndex\<close>\<close>

text \<open>
  \<^verbatim>\<open>
  function sanitizeExerciseIndex(index?: number): number {
    if (!index || Number.isNaN(index)) return 1;
    if (index < 1) return 1;
    if (index > 3) return 3;
    return Math.floor(index);
  }
  \<close>
  The same text in all six variants that have it. The declared parameter type is
  \<^verbatim>\<open>number | undefined\<close>; the callers pass \<^verbatim>\<open>body.exerciseIndex\<close>, which is whatever the
  request holds, so the model takes any value. Both comparisons and \<^verbatim>\<open>Math.floor\<close>
  convert the value to a number, which can raise.
\<close>

definition sanitizeExerciseIndex :: "jsval \<Rightarrow> exn + jsnum" where
  "sanitizeExerciseIndex index =
     (if \<not> truthy index \<or> Number_isNaN index then Inr (Fin 1)
      else case toNumber index of
             Inl e \<Rightarrow> Inl e
           | Inr n \<Rightarrow>
               if num_lt n (Fin 1) then Inr (Fin 1)
               else if num_gt n (Fin 3) then Inr (Fin 3)
               else Inr (math_floor n))"

subsection \<open>Responses and the outside world\<close>

text \<open>
  \<^verbatim>\<open>
  type EvaluationResult = { result: PracticeResult; score: number; feedbackSummary: string };
  type ExerciseDefinition = { statement: string; exerciseType: ExerciseType };
  \<close>
  The two enumerations are types of string literals, which the compiler erases: at run time
  the fields hold what the code put there, so they are strings in the model and membership in
  the enumeration is a property to prove.
\<close>

record EvaluationResult =
  result :: string
  score :: jsnum
  feedbackSummary :: string

record ExerciseDefinition =
  statement :: string
  exerciseType :: string

datatype payload =
    ErrorBody string
  | Evaluation EvaluationResult
  | Exercise ExerciseDefinition

text \<open>What a call of a handler ends in: \<^verbatim>\<open>res.status(n).json(p)\<close>, or an exception
  that leaves the handler (its promise is rejected and the handler has sent nothing).\<close>

datatype outcome = Responded nat payload | Threw exn

datatype ext_call = FetchImage string | QuerySubtopics | CallCompletion

record request =
  req_method :: string
  req_body :: jsval

text \<open>
  The collaborators are outside the repository; what they answer to one request is a
  parameter of the model:
  \<^item> \<open>Fetched ok header data\<close> is the reply of \<^verbatim>\<open>fetch(imageUrl)\<close>: \<^verbatim>\<open>imgResp.ok\<close>, the
    \<^verbatim>\<open>content-type\<close> header and the base64 text of the bytes (empty when there are no
    bytes); \<open>FetchRejected\<close> is a rejected \<^verbatim>\<open>fetch\<close> or \<^verbatim>\<open>arrayBuffer\<close>;
  \<^item> \<open>CompletionText t\<close> is the text read from the completion service's reply
    (\<open>None\<close> for \<^verbatim>\<open>null\<close> or \<^verbatim>\<open>undefined\<close>); \<open>CompletionRejected\<close> is any exception
    raised by the call or while reading the text out of the reply;
  \<^item> \<open>QueryRow name\<close> is the row found by \<^verbatim>\<open>fetchSubtopicContext\<close> (only its name
    decides anything; the other columns go into the prompt), \<open>QueryNothing\<close> a store error
    or no row (both make the function return \<^verbatim>\<open>null\<close>), \<open>QueryRejected\<close> an exception;
  \<^item> \<open>json_parse\<close> is \<^verbatim>\<open>JSON.parse\<close> (\<open>None\<close> for a \<^verbatim>\<open>SyntaxError\<close>);
  \<^item> \<open>apiKey\<close> is the credential in \<^verbatim>\<open>process.env\<close>.
  The prompts only travel to the completion service, whose reply is a parameter, so their
  text is not modelled; that building them can raise is.
\<close>

datatype fetch_result = FetchRejected | Fetched bool "string option" string

datatype completion_result = CompletionRejected | CompletionText "string option"

datatype subtopic_result = QueryRejected | QueryNothing | QueryRow string

record world =
  apiKey :: "string option"
  image :: fetch_result
  subtopics :: subtopic_result
  completion :: completion_result
  json_parse :: "string \<Rightarrow> jsval option"

text \<open>
  \<^verbatim>\<open>JSON.parse\<close>: a JSON text is a value between optional white space (tab, line feed,
  carriage return, space), and a value starts with a brace, a bracket, a double quote, a minus
  sign, a digit or the first letter of \<^verbatim>\<open>true\<close>, \<^verbatim>\<open>false\<close>, \<^verbatim>\<open>null\<close>. A text that
  starts otherwise is rejected whatever the parameter says.
\<close>

definition json_ws :: "char \<Rightarrow> bool" where
  "json_ws c = (of_char c \<in> {9, 10, 13, 32 :: nat})"

definition json_start :: "char \<Rightarrow> bool" where
  "json_start c = (is_digit c \<or> c \<in> set ''{[-tfn'' \<or> c = CHR 0x22)"

definition JSON_parse :: "(string \<Rightarrow> jsval option) \<Rightarrow> string \<Rightarrow> exn + jsval" where
  "JSON_parse p s =
     (case dropWhile json_ws s of
        [] \<Rightarrow> Inl SyntaxError
      | c # _ \<Rightarrow>
          if json_start c
          then (case p s of None \<Rightarrow> Inl SyntaxError | Some v \<Rightarrow> Inr v)
          else Inl SyntaxError)"

text \<open>The projections used where a \<^verbatim>\<open>typeof\<close> or \<^verbatim>\<open>Number.isFinite\<close> test has
  already established the kind of the value.\<close>

fun str_of :: "jsval \<Rightarrow> string" where
  "str_of (JStr s) = s"
| "str_of _ = []"

fun num_of :: "jsval \<Rightarrow> jsnum" where
  "num_of (JNum n) = n"
| "num_of _ = NaN"

fun is_string :: "jsval \<Rightarrow> bool" where
  "is_string (JStr s) = True"
| "is_string _ = False"

fun is_number :: "jsval \<Rightarrow> bool" where
  "is_number (JNum n) = True"
| "is_number _ = False"

text \<open>\<^verbatim>\<open>xs.includes(v)\<close> for an array of strings: only an equal string is found.\<close>

definition includes_val :: "string list \<Rightarrow> jsval \<Rightarrow> bool" where
  "includes_val xs v = (is_string v \<and> str_of v \<in> set xs)"

text \<open>\<^verbatim>\<open>typeof v === "string" && v.trim().length > 0\<close>\<close>

definition nonblank_string :: "jsval \<Rightarrow> bool" where
  "nonblank_string v = (is_string v \<and> 0 < length (trim (str_of v)))"

section \<open>evaluateAnswer\<close>

subsection \<open>\<^verbatim>\<open>getFallbackEvaluation\<close>\<close>

text \<open>
  \<^verbatim>\<open>
  function getFallbackEvaluation(exerciseIndex: number = 1): EvaluationResult {
    if (exerciseIndex === 1) { return { result: "correct", score: 100, feedbackSummary: ... }; }
    if (exerciseIndex === 2) { return { result: "partial", score: 60, feedbackSummary: ... }; }
    return { result: "incorrect", score: 20, feedbackSummary: ... };
  }
  \<close>
  The same text in the three variants; every call passes the argument.
\<close>

definition ALLOWED_RESULTS :: "string list" where
  "ALLOWED_RESULTS = [''correct'', ''partial'', ''incorrect'']"

definition getFallbackEvaluation :: "jsnum \<Rightarrow> EvaluationResult" where
  "getFallbackEvaluation exerciseIndex =
     (if exerciseIndex = Fin 1 then
        \<lparr>result = ''correct'', score = Fin 100,
         feedbackSummary = ''Bom trabalho! Acertaste este exerc'' @ [CHR 0xED] @ ''cio.''\<rparr>
      else if exerciseIndex = Fin 2 then
        \<lparr>result = ''partial'', score = Fin 60,
         feedbackSummary =
           ''Quase l'' @ [CHR 0xE1] @ ''. Vale a pena rever alguns passos deste tipo de exerc''
           @ [CHR 0xED] @ ''cio.''\<rparr>
      else
        \<lparr>result = ''incorrect'', score = Fin 20,
         feedbackSummary =
           ''A tua resolu'' @ [CHR 0xE7] @ [CHR 0xE3] @ ''o ainda precisa de refor'' @ [CHR 0xE7]
           @ ''o neste tipo de exerc'' @ [CHR 0xED] @ ''cio.''\<rparr>)"

abbreviation fallbackResponse :: "jsnum \<Rightarrow> outcome" where
  "fallbackResponse i \<equiv> Responded 200 (Evaluation (getFallbackEvaluation i))"

subsection \<open>From the request to the image fetch\<close>

text \<open>
  Lines 53 to 86 of the first variant, the same in the other two but for the name of the
  environment variable:
  \<^verbatim>\<open>
  const { statement, userAnswer = "", imageUrl, subtopicName = "Derivadas",
          difficulty = "medium" } = body;
  const exerciseIndex = sanitizeExerciseIndex(body.exerciseIndex);
  if (!statement || typeof statement !== "string" || !statement.trim()) { ... fallback }
  if (!imageUrl || typeof imageUrl !== "string" || !imageUrl.trim()) { ... fallback }
  if (!process.env.GEMINI_API_KEY) { ... fallback }
  const trimmedAnswer = userAnswer.toString().trim();
  \<close>
  None of this is inside a \<^verbatim>\<open>try\<close>: the \<^verbatim>\<open>try\<close> around \<^verbatim>\<open>body = req.body\<close> ends
  before the destructuring. \<open>Inl\<close> is the end of the request, \<open>Inr\<close> goes on.
\<close>

definition with_default :: "jsval \<Rightarrow> jsval \<Rightarrow> jsval" where
  "with_default v d = (if v = JUndefined then d else v)"

definition missing_text :: "jsval \<Rightarrow> bool" where
  "missing_text v = (\<not> truthy v \<or> \<not> is_string v \<or> \<not> truthy (JStr (trim (str_of v))))"

definition missing_key :: "string option \<Rightarrow> bool" where
  "missing_key k = (case k of None \<Rightarrow> True | Some s \<Rightarrow> s = [])"

text \<open>\<^verbatim>\<open>v.toString()\<close>: no such method on \<^verbatim>\<open>null\<close>; an object's own key
  \<^verbatim>\<open>toString\<close> is not callable; an array joins the strings of its elements.\<close>

definition toString_call_throws :: "jsval \<Rightarrow> bool" where
  "toString_call_throws v = (nullish v \<or> toStringThrows v)"

record eval_context =
  ctx_index :: jsnum
  ctx_imageUrl :: string
  ctx_subtopicName :: jsval
  ctx_difficulty :: jsval

definition evaluatePrologue :: "string option \<Rightarrow> jsval \<Rightarrow> outcome + eval_context" where
  "evaluatePrologue key b =
     (if nullish b then Inl (Threw TypeError)
      else
        let stmt = getProp b ''statement'';
            userAnswer = with_default (getProp b ''userAnswer'') (JStr []);
            imageUrl = getProp b ''imageUrl'';
            subtopicName = with_default (getProp b ''subtopicName'') (JStr ''Derivadas'');
            difficulty = with_default (getProp b ''difficulty'') (JStr ''medium'')
        in case sanitizeExerciseIndex (getProp b ''exerciseIndex'') of
             Inl e \<Rightarrow> Inl (Threw e)
           | Inr exerciseIndex \<Rightarrow>
               if missing_text stmt then Inl (fallbackResponse exerciseIndex)
               else if missing_text imageUrl then Inl (fallbackResponse exerciseIndex)
               else if missing_key key then Inl (fallbackResponse exerciseIndex)
               else if toString_call_throws userAnswer then Inl (Threw TypeError)
               else Inr \<lparr>ctx_index = exerciseIndex, ctx_imageUrl = str_of imageUrl,
                         ctx_subtopicName = subtopicName, ctx_difficulty = difficulty\<rparr>)"

text \<open>The template literal of the user prompt interpolates \<^verbatim>\<open>subtopicName\<close> and
  \<^verbatim>\<open>difficulty\<close> as the request gave them (the other interpolated values are a number and
  strings by then); in the three variants it stands between the image fetch and the
  \<^verbatim>\<open>try\<close> of the completion call.\<close>

definition prompt_throws :: "eval_context \<Rightarrow> bool" where
  "prompt_throws c = (toStringThrows (ctx_subtopicName c) \<or> toStringThrows (ctx_difficulty c))"

subsection \<open>The image fetch\<close>

text \<open>
  First variant, lines 88 to 114: a rejected fetch and a reply that is not \<^verbatim>\<open>ok\<close> end in
  the \<^verbatim>\<open>catch\<close>, and so does an empty base64 text in the test \<^verbatim>\<open>!base64Image\<close> after
  it. The result is the MIME type and the data, \<open>None\<close> where the handler answers with the
  fallback.
\<close>

definition mime_of :: "string option \<Rightarrow> string" where
  "mime_of header =
     (let contentTypeHeader = (case header of None \<Rightarrow> ''image/jpeg''
                               | Some h \<Rightarrow> if h = [] then ''image/jpeg'' else h)
      in if startsWith contentTypeHeader ''image/''
         then takeWhile (\<lambda>c. c \<noteq> CHR '';'') contentTypeHeader
         else ''image/jpeg'')"

definition fetchImage_gemini :: "fetch_result \<Rightarrow> (string \<times> string) option" where
  "fetchImage_gemini r =
     (case r of
        FetchRejected \<Rightarrow> None
      | Fetched ok header data \<Rightarrow>
          if \<not> ok then None
          else if data = [] then None
          else Some (mime_of header, data))"

text \<open>Second variant (OpenAI), lines 348 to 362: the data URL
  \<^verbatim>\<open>data:image/jpeg;base64,...\<close> is never empty.\<close>

definition fetchImage_openai :: "fetch_result \<Rightarrow> (string \<times> string) option" where
  "fetchImage_openai r =
     (case r of
        FetchRejected \<Rightarrow> None
      | Fetched ok header data \<Rightarrow>
          if \<not> ok then None
          else Some (''image/jpeg'', ''data:image/jpeg;base64,'' @ data))"

text \<open>Third variant, lines 546 to 568: no test of the base64 text; an empty one only
  leaves the image out of the parts sent.\<close>

definition fetchImage_genai :: "fetch_result \<Rightarrow> (string \<times> string) option" where
  "fetchImage_genai r =
     (case r of
        FetchRejected \<Rightarrow> None
      | Fetched ok header data \<Rightarrow>
          if \<not> ok then None
          else Some (mime_of header, data))"

subsection \<open>Cleaning the completion text (first variant only)\<close>

text \<open>
  Lines 199 to 215:
  \<^verbatim>\<open>
  let jsonText = text.trim();
  if (jsonText.startsWith("```")) {
    jsonText = jsonText.replace(/^```[a-zA-Z]*\s*/, "");
    jsonText = jsonText.replace(/```$/, "").trim();
  }
  const firstBrace = jsonText.indexOf("{");
  const lastBrace = jsonText.lastIndexOf("}");
  if (firstBrace !== -1 && lastBrace !== -1 && lastBrace > firstBrace) {
    jsonText = jsonText.slice(firstBrace, lastBrace + 1);
  }
  \<close>
  The first expression is applied to a text that starts with the fence, where it always
  matches: the fence, the longest run of letters, the longest run of white space. The second
  has no \<^verbatim>\<open>m\<close> flag, so \<^verbatim>\<open>$\<close> is the end of the text.
\<close>

definition fence :: string where
  "fence = [CHR 0x60, CHR 0x60, CHR 0x60]"

definition strip_fence_open :: "string \<Rightarrow> string" where
  "strip_fence_open s = dropWhile js_ws (dropWhile is_alpha (drop 3 s))"

definition strip_fence_close :: "string \<Rightarrow> string" where
  "strip_fence_close s = (if endsWith s fence then take (length s - 3) s else s)"

definition indexOf :: "string \<Rightarrow> char \<Rightarrow> int" where
  "indexOf s c = (if c \<in> set s then int (length (takeWhile (\<lambda>d. d \<noteq> c) s)) else - 1)"

definition lastIndexOf :: "string \<Rightarrow> char \<Rightarrow> int" where
  "lastIndexOf s c =
     (if c \<in> set s then int (length s) - 1 - int (length (takeWhile (\<lambda>d. d \<noteq> c) (rev s)))
      else - 1)"

text \<open>\<^verbatim>\<open>s.slice(a, b)\<close> for \<open>0 \<le> a\<close> and \<open>0 \<le> b\<close>, the only use here.\<close>

definition slice :: "string \<Rightarrow> int \<Rightarrow> int \<Rightarrow> string" where
  "slice s a b = take (nat b - nat a) (drop (nat a) s)"

definition cleanJsonText :: "string \<Rightarrow> string" where
  "cleanJsonText text =
     (let t0 = trim text;
          jsonText = (if startsWith t0 fence
                      then trim (strip_fence_close (strip_fence_open t0)) else t0);
          firstBrace = indexOf jsonText (CHR ''{'');
          lastBrace = lastIndexOf jsonText (CHR ''}'')
      in if firstBrace \<noteq> - 1 \<and> lastBrace \<noteq> - 1 \<and> lastBrace > firstBrace
         then slice jsonText firstBrace (lastBrace + 1) else jsonText)"

subsection \<open>Validating the completion\<close>

text \<open>
  First variant, lines 217 to 251 (third variant, lines 656 to 690, the same):
  \<^verbatim>\<open>
  let parsed: any;
  try { parsed = JSON.parse(jsonText); } catch (err) { ... fallback }
  const resultLabel: PracticeResult = parsed.result;
  const scoreRaw = Number(parsed.score);
  const isValid =
    ALLOWED_RESULTS.includes(resultLabel) && Number.isFinite(scoreRaw) &&
    typeof parsed.feedbackSummary === "string" && parsed.feedbackSummary.trim().length > 0;
  if (!isValid) { ... fallback }
  const score = Math.max(0, Math.min(100, Math.round(scoreRaw)));
  const output = { result: resultLabel, score, feedbackSummary: parsed.feedbackSummary.trim() };
  \<close>
  \<open>Inl\<close> is an exception on its way to the outer \<^verbatim>\<open>catch\<close>.
\<close>

definition validateEvaluation :: "(string \<Rightarrow> jsval option) \<Rightarrow> jsnum \<Rightarrow> string \<Rightarrow> exn + EvaluationResult" where
  "validateEvaluation p exerciseIndex jsonText =
     (case JSON_parse p jsonText of
        Inl e \<Rightarrow> Inr (getFallbackEvaluation exerciseIndex)
      | Inr parsed \<Rightarrow>
          if nullish parsed then Inl TypeError
          else
            (let resultLabel = getProp parsed ''result''
             in case toNumber (getProp parsed ''score'') of
                 Inl e \<Rightarrow> Inl e
               | Inr scoreRaw \<Rightarrow>
                   let isValid =
                         (includes_val ALLOWED_RESULTS resultLabel \<and>
                          Number_isFinite (JNum scoreRaw) \<and>
                          nonblank_string (getProp parsed ''feedbackSummary''))
                   in if \<not> isValid then Inr (getFallbackEvaluation exerciseIndex)
                      else Inr \<lparr>result = str_of resultLabel,
                                score = math_max (Fin 0) (math_min (Fin 100) (math_round scoreRaw)),
                                feedbackSummary = trim (str_of (getProp parsed ''feedbackSummary''))\<rparr>))"

definition gradeText_gemini :: "(string \<Rightarrow> jsval option) \<Rightarrow> jsnum \<Rightarrow> string \<Rightarrow> exn + EvaluationResult" where
  "gradeText_gemini p exerciseIndex text = validateEvaluation p exerciseIndex (cleanJsonText text)"

definition gradeText_genai :: "(string \<Rightarrow> jsval option) \<Rightarrow> jsnum \<Rightarrow> string \<Rightarrow> exn + EvaluationResult" where
  "gradeText_genai p exerciseIndex text = validateEvaluation p exerciseIndex text"

text \<open>
  Second variant (OpenAI), lines 426 to 453:
  \<^verbatim>\<open>
  const isValid =
    ALLOWED_RESULTS.includes(parsed.result) && Number.isFinite(parsed.score) &&
    parsed.score >= 0 && parsed.score <= 100 &&
    typeof parsed.feedbackSummary === "string" && parsed.feedbackSummary.length > 0;
  if (!isValid) { ... fallback }
  const output = { result: parsed.result, score: parsed.score,
                   feedbackSummary: parsed.feedbackSummary };
  \<close>
\<close>

definition gradeText_openai :: "(string \<Rightarrow> jsval option) \<Rightarrow> jsnum \<Rightarrow> string \<Rightarrow> exn + EvaluationResult" where
  "gradeText_openai p exerciseIndex content =
     (case JSON_parse p content of
        Inl e \<Rightarrow> Inr (getFallbackEvaluation exerciseIndex)
      | Inr parsed \<Rightarrow>
          if nullish parsed then Inl TypeError
          else
            let isValid =
                  (includes_val ALLOWED_RESULTS (getProp parsed ''result'') \<and>
                   Number_isFinite (getProp parsed ''score'') \<and>
                   num_ge (num_of (getProp parsed ''score'')) (Fin 0) \<and>
                   num_le (num_of (getProp parsed ''score'')) (Fin 100) \<and>
                   is_string (getProp parsed ''feedbackSummary'') \<and>
                   0 < length (str_of (getProp parsed ''feedbackSummary'')))
            in if \<not> isValid then Inr (getFallbackEvaluation exerciseIndex)
               else Inr \<lparr>result = str_of (getProp parsed ''result''),
                         score = num_of (getProp parsed ''score''),
                         feedbackSummary = str_of (getProp parsed ''feedbackSummary'')\<rparr>)"

subsection \<open>The handlers\<close>

text \<open>
  The \<^verbatim>\<open>try\<close> of the completion call: the call, the test \<^verbatim>\<open>if (!text)\<close> and the
  validation; its \<^verbatim>\<open>catch\<close> answers with the fallback of the request's index.
\<close>

definition tryGrade :: "(string \<Rightarrow> exn + EvaluationResult) \<Rightarrow> jsnum \<Rightarrow> completion_result \<Rightarrow> exn + EvaluationResult" where
  "tryGrade grade exerciseIndex c =
     (case c of
        CompletionRejected \<Rightarrow> Inl ExternalFailure
      | CompletionText t \<Rightarrow>
          (case t of
             None \<Rightarrow> Inr (getFallbackEvaluation exerciseIndex)
           | Some text \<Rightarrow>
               if text = [] then Inr (getFallbackEvaluation exerciseIndex) else grade text))"

definition catchGrade :: "jsnum \<Rightarrow> exn + EvaluationResult \<Rightarrow> EvaluationResult" where
  "catchGrade exerciseIndex r =
     (case r of Inl e \<Rightarrow> getFallbackEvaluation exerciseIndex | Inr v \<Rightarrow> v)"

text \<open>
  The three variants of \<^verbatim>\<open>handler\<close> in \<^verbatim>\<open>evaluateAnswer.ts\<close> have one shape and differ
  in the image fetch and in the validation. The second component of the result lists the
  calls made to the collaborators, in order.
\<close>

definition evaluateAnswer ::
  "(fetch_result \<Rightarrow> (string \<times> string) option) \<Rightarrow>
   ((string \<Rightarrow> jsval option) \<Rightarrow> jsnum \<Rightarrow> string \<Rightarrow> exn + EvaluationResult) \<Rightarrow>
   world \<Rightarrow> request \<Rightarrow> outcome \<times> ext_call list" where
  "evaluateAnswer fetchImage gradeText w req =
     (if req_method req \<noteq> ''POST'' then (Responded 405 (ErrorBody ''Method not allowed''), [])
      else case evaluatePrologue (apiKey w) (req_body req) of
             Inl out \<Rightarrow> (out, [])
           | Inr c \<Rightarrow>
               (case fetchImage (image w) of
                  None \<Rightarrow> (fallbackResponse (ctx_index c), [FetchImage (ctx_imageUrl c)])
                | Some img \<Rightarrow>
                    if prompt_throws c then (Threw TypeError, [FetchImage (ctx_imageUrl c)])
                    else
                      (Responded 200 (Evaluation
                         (catchGrade (ctx_index c)
                            (tryGrade (gradeText (json_parse w) (ctx_index c)) (ctx_index c)
                               (completion w)))),
                       [FetchImage (ctx_imageUrl c), CallCompletion])))"

text \<open>\<^verbatim>\<open>evaluateAnswer.ts\<close>, lines 45 to 256 (Gemini, \<^verbatim>\<open>@google/generative-ai\<close>).\<close>

definition handler_evaluate_gemini :: "world \<Rightarrow> request \<Rightarrow> outcome \<times> ext_call list" where
  "handler_evaluate_gemini = evaluateAnswer fetchImage_gemini gradeText_gemini"

text \<open>\<^verbatim>\<open>evaluateAnswer.ts\<close>, lines 305 to 458 (OpenAI).\<close>

definition handler_evaluate_openai :: "world \<Rightarrow> request \<Rightarrow> outcome \<times> ext_call list" where
  "handler_evaluate_openai = evaluateAnswer fetchImage_openai gradeText_openai"

text \<open>\<^verbatim>\<open>evaluateAnswer.ts\<close>, lines 503 to 695 (Gemini, \<^verbatim>\<open>@google/genai\<close>).\<close>

definition handler_evaluate_genai :: "world \<Rightarrow> request \<Rightarrow> outcome \<times> ext_call list" where
  "handler_evaluate_genai = evaluateAnswer fetchImage_genai gradeText_genai"

section \<open>generateExercise\<close>

subsection \<open>\<^verbatim>\<open>localFallback\<close>\<close>

text \<open>
  \<^verbatim>\<open>
  function localFallback(exerciseIndex: number): ExerciseDefinition {
    if (exerciseIndex === 1) { return { statement: ..., exerciseType: "basic_procedural" }; }
    if (exerciseIndex === 2) { return { statement: ..., exerciseType: "mixed_rules" }; }
    return { statement: ..., exerciseType: "applied_word_problem" };
  }
  \<close>
  The same text in \<^verbatim>\<open>generateExercise.ts\<close> (lines 38 to 60 and 297 to 319) and in
  \<^verbatim>\<open>evaluateAnswer.ts\<close> (lines 758 to 780).
\<close>

definition allowedTypes :: "string list" where
  "allowedTypes = [''basic_procedural'', ''mixed_rules'', ''applied_word_problem'', ''exam_multi_step'']"

definition localFallback :: "jsnum \<Rightarrow> ExerciseDefinition" where
  "localFallback exerciseIndex =
     (if exerciseIndex = Fin 1 then
        \<lparr>statement =
           ''Considera a fun'' @ [CHR 0xE7] @ [CHR 0xE3] @ ''o f(x) = 2x'' @ [CHR 0xB3] @ '' - 5x''
           @ [CHR 0xB2] @ '' + 3x - 1.'' @ [CHR 0x0A] @ ''Calcula f'' @ [CHR 0x27] @ ''(x).'',
         exerciseType = ''basic_procedural''\<rparr>
      else if exerciseIndex = Fin 2 then
        \<lparr>statement =
           ''Seja g(x) = (3x'' @ [CHR 0xB2] @ '' + 1)'' @ [CHR 0xB7] @ ''e^{2x}.'' @ [CHR 0x0A]
           @ ''Calcula g'' @ [CHR 0x27] @ ''(x) usando as regras do produto e, se necess''
           @ [CHR 0xE1] @ ''rio, da cadeia.'',
         exerciseType = ''mixed_rules''\<rparr>
      else
        \<lparr>statement =
           ''Numa prova de Matem'' @ [CHR 0xE1] @ ''tica, a fun'' @ [CHR 0xE7] @ [CHR 0xE3]
           @ ''o h(x) = (4x - 3)'' @ [CHR 0xB7] @ ''ln(x) modela uma certa grandeza.''
           @ [CHR 0x0A] @ ''Calcula h'' @ [CHR 0x27] @ ''(x).'',
         exerciseType = ''applied_word_problem''\<rparr>)"

text \<open>The variant of \<^verbatim>\<open>evaluateAnswer.ts\<close>, lines 920 to 944, has other statements.\<close>

definition localFallback_strict :: "jsnum \<Rightarrow> ExerciseDefinition" where
  "localFallback_strict exerciseIndex =
     (if exerciseIndex = Fin 1 then
        \<lparr>statement =
           ''1) Considere a fun'' @ [CHR 0xE7] @ [CHR 0xE3] @ ''o f(x) = 3x'' @ [CHR 0xB2]
           @ '' - 5x + 2.'' @ [CHR 0x0A] @ ''Calcula f'' @ [CHR 0x27] @ ''(x).'',
         exerciseType = ''basic_procedural''\<rparr>
      else if exerciseIndex = Fin 2 then
        \<lparr>statement =
           ''2) Considere g(x) = (2x + 1) '' @ [CHR 0xB7] @ '' e^{x'' @ [CHR 0xB2] @ ''}.''
           @ [CHR 0x0A] @ ''Usa regras do produto e da cadeia para calcular g'' @ [CHR 0x27]
           @ ''(x).'',
         exerciseType = ''mixed_rules''\<rparr>
      else
        \<lparr>statement =
           ''3) Num exerc'' @ [CHR 0xED] @ ''cio de exame, a fun'' @ [CHR 0xE7] @ [CHR 0xE3]
           @ ''o h modela o lucro di'' @ [CHR 0xE1] @ ''rio:'' @ [CHR 0x0A]
           @ ''h(x) = (4x - 3) '' @ [CHR 0xB7] @ '' e^{0.5x}, onde x '' @ [CHR 0xE9] @ '' o n''
           @ [CHR 0xFA] @ ''mero de unidades produzidas.'' @ [CHR 0x0A]
           @ ''Determina h'' @ [CHR 0x27] @ ''(x) e interpreta o seu significado.'',
         exerciseType = ''applied_word_problem''\<rparr>)"

subsection \<open>The type hints\<close>

text \<open>\<^verbatim>\<open>(subtopicName || "").toLowerCase()\<close>: only a string has the method.\<close>

definition lowered :: "jsval \<Rightarrow> exn + string" where
  "lowered v =
     (let x = (if truthy v then v else JStr [])
      in if is_string x then Inr (toLowerCase (str_of x)) else Inl TypeError)"

text \<open>\<^verbatim>\<open>pickExerciseType\<close> of \<^verbatim>\<open>generateExercise.ts\<close>, lines 62 to 89.\<close>

definition pickExerciseType :: "jsval \<Rightarrow> jsval \<Rightarrow> jsnum \<Rightarrow> exn + string" where
  "pickExerciseType subtopicName difficulty exerciseIndex =
     (case lowered subtopicName of
        Inl e \<Rightarrow> Inl e
      | Inr sub \<Rightarrow>
          if includes_str sub (''resolu'' @ [CHR 0xE7] @ [CHR 0xE3] @ ''o de problemas'') \<or>
             includes_str sub (''modela'' @ [CHR 0xE7] @ [CHR 0xE3] @ ''o'')
          then Inr (if exerciseIndex = Fin 3 then ''exam_multi_step'' else ''applied_word_problem'')
          else if difficulty = JStr ''easy'' then Inr ''basic_procedural''
          else if difficulty = JStr ''hard''
          then (if exerciseIndex = Fin 3 then Inr ''exam_multi_step'' else Inr ''mixed_rules'')
          else if exerciseIndex = Fin 1 then Inr ''basic_procedural''
          else if exerciseIndex = Fin 2 then Inr ''mixed_rules''
          else Inr ''applied_word_problem'')"

text \<open>\<^verbatim>\<open>pickExerciseType\<close> of \<^verbatim>\<open>evaluateAnswer.ts\<close>, lines 730 to 755.\<close>

definition pickExerciseType_basic :: "jsval \<Rightarrow> jsval \<Rightarrow> jsnum \<Rightarrow> exn + string" where
  "pickExerciseType_basic subtopicName difficulty exerciseIndex =
     (case lowered subtopicName of
        Inl e \<Rightarrow> Inl e
      | Inr sub \<Rightarrow>
          if includes_str sub ''problema'' \<or> includes_str sub ''aplicado''
          then Inr ''applied_word_problem''
          else if difficulty = JStr ''easy'' then Inr ''basic_procedural''
          else if difficulty = JStr ''hard''
          then (if exerciseIndex = Fin 3 then Inr ''exam_multi_step'' else Inr ''mixed_rules'')
          else if exerciseIndex = Fin 1 then Inr ''basic_procedural''
          else Inr ''mixed_rules'')"

text \<open>\<^verbatim>\<open>chooseExerciseTypeHint\<close> of \<^verbatim>\<open>generateExercise.ts\<close>, lines 322 to 340.\<close>

definition chooseExerciseTypeHint :: "jsnum \<Rightarrow> string \<Rightarrow> string" where
  "chooseExerciseTypeHint exerciseIndex difficulty =
     (if exerciseIndex = Fin 1 then ''basic_procedural''
      else if exerciseIndex = Fin 2 then ''mixed_rules''
      else if difficulty = ''hard'' then ''exam_multi_step''
      else ''applied_word_problem'')"

subsection \<open>From the request to the completion call\<close>

text \<open>The index, the hint and the calls made so far; the fallback record of the request
  is \<^verbatim>\<open>localFallback(safeIndex)\<close>.\<close>

record gen_context =
  gen_index :: jsnum
  gen_hint :: string

definition or_default :: "jsval \<Rightarrow> jsval \<Rightarrow> jsval" where
  "or_default v d = (if truthy v then v else d)"

text \<open>\<^verbatim>\<open>subtopicName?.trim() || "Derivadas"\<close>: a value that is neither nullish nor a
  string has no method \<^verbatim>\<open>trim\<close>.\<close>

definition trimmed_or_default :: "jsval \<Rightarrow> exn + string" where
  "trimmed_or_default v =
     (if nullish v then Inr ''Derivadas''
      else if is_string v
      then Inr (if trim (str_of v) = [] then ''Derivadas'' else trim (str_of v))
      else Inl TypeError)"

text \<open>
  \<^verbatim>\<open>generateExercise.ts\<close>, lines 148 to 162:
  \<^verbatim>\<open>
  const body = req.body as RequestBody;
  const safeIndex = sanitizeExerciseIndex(body.exerciseIndex);
  const difficulty = body.difficulty || "medium";
  const ctx = await fetchSubtopicContext(body);
  const subtopicLabel = ctx?.subtopicName || body.subtopicName || "Subtema de derivadas";
  ...
  const fallback = localFallback(safeIndex);
  const exerciseType = pickExerciseType(subtopicLabel, difficulty, safeIndex);
  \<close>
\<close>

text \<open>\<^verbatim>\<open>ctx?.subtopicName || body.subtopicName || "Subtema de derivadas"\<close>, where
  \<^verbatim>\<open>ctx\<close> is \<^verbatim>\<open>null\<close> unless a row was found.\<close>

definition subtopicLabel :: "subtopic_result \<Rightarrow> jsval \<Rightarrow> jsval" where
  "subtopicLabel r b =
     or_default (case r of QueryRow name \<Rightarrow> JStr name | _ \<Rightarrow> JUndefined)
       (or_default (getProp b ''subtopicName'') (JStr ''Subtema de derivadas''))"

definition prepare_supabase :: "world \<Rightarrow> jsval \<Rightarrow> (exn + gen_context) \<times> ext_call list" where
  "prepare_supabase w b =
     (if nullish b then (Inl TypeError, [])
      else case sanitizeExerciseIndex (getProp b ''exerciseIndex'') of
             Inl e \<Rightarrow> (Inl e, [])
           | Inr safeIndex \<Rightarrow>
               (let difficulty = or_default (getProp b ''difficulty'') (JStr ''medium'')
                in if subtopics w = QueryRejected then (Inl ExternalFailure, [QuerySubtopics])
                   else (case pickExerciseType (subtopicLabel (subtopics w) b) difficulty safeIndex of
                           Inl e \<Rightarrow> (Inl e, [QuerySubtopics])
                         | Inr t \<Rightarrow>
                             (Inr \<lparr>gen_index = safeIndex, gen_hint = t\<rparr>, [QuerySubtopics]))))"

text \<open>
  \<^verbatim>\<open>generateExercise.ts\<close>, lines 354 to 363:
  \<^verbatim>\<open>
  let { subtopicName, difficulty, exerciseIndex } = body;
  const safeIndex = sanitizeExerciseIndex(exerciseIndex);
  const diff = difficulty === "easy" || difficulty === "hard" ? difficulty : "medium";
  const sub = subtopicName?.trim() || "Derivadas";
  const fallback = localFallback(safeIndex);
  const typeHint = chooseExerciseTypeHint(safeIndex, diff);
  \<close>
\<close>

definition prepare_hint :: "world \<Rightarrow> jsval \<Rightarrow> (exn + gen_context) \<times> ext_call list" where
  "prepare_hint w b =
     (if nullish b then (Inl TypeError, [])
      else case sanitizeExerciseIndex (getProp b ''exerciseIndex'') of
             Inl e \<Rightarrow> (Inl e, [])
           | Inr safeIndex \<Rightarrow>
               (let difficulty = getProp b ''difficulty'';
                   diff = (if difficulty = JStr ''easy'' \<or> difficulty = JStr ''hard''
                           then str_of difficulty else ''medium'')
               in case trimmed_or_default (getProp b ''subtopicName'') of
                    Inl e \<Rightarrow> (Inl e, [])
                  | Inr sub \<Rightarrow>
                      (Inr \<lparr>gen_index = safeIndex,
                            gen_hint = chooseExerciseTypeHint safeIndex diff\<rparr>, [])))"

text \<open>
  \<^verbatim>\<open>evaluateAnswer.ts\<close>, lines 794 to 802:
  \<^verbatim>\<open>
  let { subtopicName, difficulty, exerciseIndex } = body;
  const safeIndex = sanitizeExerciseIndex(exerciseIndex);
  const diff = difficulty || "medium";
  const sub = subtopicName?.trim() || "Derivadas";
  const fallback = localFallback(safeIndex);
  const exerciseType = pickExerciseType(sub, diff, safeIndex);
  \<close>
\<close>

definition prepare_basic :: "world \<Rightarrow> jsval \<Rightarrow> (exn + gen_context) \<times> ext_call list" where
  "prepare_basic w b =
     (if nullish b then (Inl TypeError, [])
      else case sanitizeExerciseIndex (getProp b ''exerciseIndex'') of
             Inl e \<Rightarrow> (Inl e, [])
           | Inr safeIndex \<Rightarrow>
               (let diff = or_default (getProp b ''difficulty'') (JStr ''medium'')
                in case trimmed_or_default (getProp b ''subtopicName'') of
                    Inl e \<Rightarrow> (Inl e, [])
                  | Inr sub \<Rightarrow>
                      (case pickExerciseType_basic (JStr sub) diff safeIndex of
                         Inl e \<Rightarrow> (Inl e, [])
                       | Inr t \<Rightarrow> (Inr \<lparr>gen_index = safeIndex, gen_hint = t\<rparr>, []))))"

subsection \<open>From the completion to the response\<close>

text \<open>\<^verbatim>\<open>completion.choices[0]?.message?.content || "{}"\<close>\<close>

definition rawContent :: "string option \<Rightarrow> string" where
  "rawContent t = (case t of None \<Rightarrow> ''{}'' | Some s \<Rightarrow> if s = [] then ''{}'' else s)"

text \<open>
  \<^verbatim>\<open>generateExercise.ts\<close>, lines 215 to 256 (the same at lines 436 to 476 and in
  \<^verbatim>\<open>evaluateAnswer.ts\<close>, lines 847 to 888):
  \<^verbatim>\<open>
  const raw = completion.choices[0]?.message?.content || "{}";
  let parsed: any;
  try { parsed = JSON.parse(raw); } catch (err) { ...; return res.status(200).json(fallback); }
  const statement =
    typeof parsed.statement === "string" && parsed.statement.trim().length > 0
      ? parsed.statement.trim() : fallback.statement;
  const finalExerciseType = allowedTypes.includes(parsed.exerciseType)
      ? parsed.exerciseType : exerciseType;
  return res.status(200).json({ statement, exerciseType: finalExerciseType });
  \<close>
  The variant at lines 436 to 476 tests \<^verbatim>\<open>parsed.exerciseType && allowedTypes.includes(...)\<close>;
  the flag \<open>guarded\<close> is that test.
\<close>

definition finishExercise ::
  "bool \<Rightarrow> (string \<Rightarrow> jsval option) \<Rightarrow> ExerciseDefinition \<Rightarrow> string \<Rightarrow> completion_result \<Rightarrow> exn + outcome" where
  "finishExercise guarded p fallback hint c =
     (case c of
        CompletionRejected \<Rightarrow> Inl ExternalFailure
      | CompletionText t \<Rightarrow>
          (case JSON_parse p (rawContent t) of
             Inl e \<Rightarrow> Inr (Responded 200 (Exercise fallback))
           | Inr parsed \<Rightarrow>
               if nullish parsed then Inl TypeError
               else
                 let stmt = (if nonblank_string (getProp parsed ''statement'')
                             then trim (str_of (getProp parsed ''statement''))
                             else statement fallback);
                     finalType =
                       (if (guarded \<longrightarrow> truthy (getProp parsed ''exerciseType'')) \<and>
                           includes_val allowedTypes (getProp parsed ''exerciseType'')
                        then str_of (getProp parsed ''exerciseType'') else hint)
                 in Inr (Responded 200 (Exercise \<lparr>statement = stmt, exerciseType = finalType\<rparr>))))"

subsection \<open>The handlers that clamp the index\<close>

text \<open>The body of the \<^verbatim>\<open>try\<close> of a handler, and its \<^verbatim>\<open>catch\<close>:
  \<^verbatim>\<open>
  } catch (err) {
    console.error("Error in /api/generateExercise:", err);
    const fallback = localFallback(1);
    return res.status(200).json(fallback);
  }
  \<close>\<close>

definition tryGenerate ::
  "(world \<Rightarrow> jsval \<Rightarrow> (exn + gen_context) \<times> ext_call list) \<Rightarrow> bool \<Rightarrow>
   world \<Rightarrow> jsval \<Rightarrow> (exn + outcome) \<times> ext_call list" where
  "tryGenerate prepare guarded w b =
     (case prepare w b of
        (Inl e, calls) \<Rightarrow> (Inl e, calls)
      | (Inr c, calls) \<Rightarrow>
          (finishExercise guarded (json_parse w) (localFallback (gen_index c)) (gen_hint c)
             (completion w),
           calls @ [CallCompletion]))"

definition catchGenerate :: "ExerciseDefinition \<Rightarrow> (exn + outcome) \<times> ext_call list \<Rightarrow> outcome \<times> ext_call list" where
  "catchGenerate fallback1 r =
     (case r of
        (Inl e, calls) \<Rightarrow> (Responded 200 (Exercise fallback1), calls)
      | (Inr out, calls) \<Rightarrow> (out, calls))"

definition generateExercise ::
  "(world \<Rightarrow> jsval \<Rightarrow> (exn + gen_context) \<times> ext_call list) \<Rightarrow> bool \<Rightarrow>
   world \<Rightarrow> request \<Rightarrow> outcome \<times> ext_call list" where
  "generateExercise prepare guarded w req =
     (if req_method req \<noteq> ''POST'' then (Responded 405 (ErrorBody ''Method Not Allowed''), [])
      else catchGenerate (localFallback (Fin 1)) (tryGenerate prepare guarded w (req_body req)))"

text \<open>\<^verbatim>\<open>generateExercise.ts\<close>, lines 138 to 262 (with the subtopic store).\<close>

definition handler_generate_supabase :: "world \<Rightarrow> request \<Rightarrow> outcome \<times> ext_call list" where
  "handler_generate_supabase = generateExercise prepare_supabase False"

text \<open>\<^verbatim>\<open>generateExercise.ts\<close>, lines 344 to 482 (with \<^verbatim>\<open>chooseExerciseTypeHint\<close>).\<close>

definition handler_generate_hint :: "world \<Rightarrow> request \<Rightarrow> outcome \<times> ext_call list" where
  "handler_generate_hint = generateExercise prepare_hint True"

text \<open>\<^verbatim>\<open>evaluateAnswer.ts\<close>, lines 784 to 894.\<close>

definition handler_generate_basic :: "world \<Rightarrow> request \<Rightarrow> outcome \<times> ext_call list" where
  "handler_generate_basic = generateExercise prepare_basic False"

subsection \<open>The handler that validates the index\<close>

text \<open>
  \<^verbatim>\<open>evaluateAnswer.ts\<close>, lines 946 to 1016:
  \<^verbatim>\<open>
  try {
    const body = req.body as RequestBody;
    const { subtopicName, difficulty, exerciseIndex } = body;
    if (typeof exerciseIndex !== "number" || exerciseIndex < 1 || exerciseIndex > 3) {
      return res.status(400).json({ error: "exerciseIndex must be 1, 2 or 3" });
    }
    ... prompts with ${subtopicName} and ${difficulty} ...
    const completion = await openai.chat.completions.create({ ... });
    const raw = completion.choices[0].message.content || "{}";
    const parsed = JSON.parse(raw);
    const fallback = localFallback(exerciseIndex);
    const statement =
      typeof parsed.statement === "string" && parsed.statement.trim().length > 0
        ? parsed.statement : fallback.statement;
    const exerciseType =
      parsed.exerciseType && [...].includes(parsed.exerciseType)
        ? parsed.exerciseType : fallback.exerciseType;
    return res.status(200).json({ statement, exerciseType });
  } catch (err) { ...; const fallback = localFallback(1); return res.status(200).json(fallback); }
  \<close>
\<close>

definition index_rejected :: "jsval \<Rightarrow> bool" where
  "index_rejected exerciseIndex =
     (\<not> is_number exerciseIndex \<or> num_lt (num_of exerciseIndex) (Fin 1) \<or>
      num_gt (num_of exerciseIndex) (Fin 3))"

definition finish_strict :: "(string \<Rightarrow> jsval option) \<Rightarrow> jsnum \<Rightarrow> completion_result \<Rightarrow> exn + outcome" where
  "finish_strict p exerciseIndex c =
     (case c of
        CompletionRejected \<Rightarrow> Inl ExternalFailure
      | CompletionText t \<Rightarrow>
          (case JSON_parse p (rawContent t) of
             Inl e \<Rightarrow> Inl e
           | Inr parsed \<Rightarrow>
               let fallback = localFallback_strict exerciseIndex
               in if nullish parsed then Inl TypeError
                  else
                    let stmt = (if nonblank_string (getProp parsed ''statement'')
                                then str_of (getProp parsed ''statement'')
                                else statement fallback);
                        etype =
                          (if truthy (getProp parsed ''exerciseType'') \<and>
                              includes_val allowedTypes (getProp parsed ''exerciseType'')
                           then str_of (getProp parsed ''exerciseType'')
                           else exerciseType fallback)
                    in Inr (Responded 200 (Exercise \<lparr>statement = stmt, exerciseType = etype\<rparr>))))"

definition try_strict :: "world \<Rightarrow> jsval \<Rightarrow> (exn + outcome) \<times> ext_call list" where
  "try_strict w b =
     (if nullish b then (Inl TypeError, [])
      else
        let exerciseIndex = getProp b ''exerciseIndex''
        in if index_rejected exerciseIndex
           then (Inr (Responded 400 (ErrorBody ''exerciseIndex must be 1, 2 or 3'')), [])
           else if toStringThrows (getProp b ''subtopicName'') \<or>
                   toStringThrows (getProp b ''difficulty'')
           then (Inl TypeError, [])
           else (finish_strict (json_parse w) (num_of exerciseIndex) (completion w),
                 [CallCompletion]))"

definition handler_generate_strict :: "world \<Rightarrow> request \<Rightarrow> outcome \<times> ext_call list" where
  "handler_generate_strict w req =
     (if req_method req \<noteq> ''POST'' then (Responded 405 (ErrorBody ''Method Not Allowed''), [])
      else catchGenerate (localFallback_strict (Fin 1)) (try_strict w (req_body req)))"

section \<open>Sample requests and replies\<close>

text \<open>A reply text of the completion service for \<^verbatim>\<open>evaluateAnswer\<close>, with the score as
  given, and the value \<^verbatim>\<open>JSON.parse\<close> makes of it.\<close>

definition quoted :: "string \<Rightarrow> string" where
  "quoted s = [CHR 0x22] @ s @ [CHR 0x22]"

definition reply_fields :: "string \<Rightarrow> string" where
  "reply_fields sc =
     quoted ''result'' @ '':'' @ quoted ''correct'' @ '','' @ quoted ''score'' @ '':'' @ sc
     @ '','' @ quoted ''feedbackSummary'' @ '':'' @ quoted '' ok ''"

definition reply_text :: "string \<Rightarrow> string" where
  "reply_text sc = ''{'' @ reply_fields sc @ ''}''"

definition reply_object :: "jsval \<Rightarrow> jsval" where
  "reply_object sc =
     JObj [(''result'', JStr ''correct''), (''score'', sc), (''feedbackSummary'', JStr '' ok '')]"

text \<open>The same text in a code fence.\<close>

definition fenced :: "string \<Rightarrow> string" where
  "fenced t = fence @ ''json'' @ [CHR 0x0A] @ t @ [CHR 0x0A] @ fence"

text \<open>A reply for \<^verbatim>\<open>generateExercise\<close> whose type is not in the enumeration.\<close>

definition exercise_text :: string where
  "exercise_text =
     ''{'' @ quoted ''statement'' @ '':'' @ quoted ''Deriva x^2.'' @ '','' @ quoted ''exerciseType''
     @ '':'' @ quoted ''quiz'' @ ''}''"

definition exercise_object :: jsval where
  "exercise_object = JObj [(''statement'', JStr ''Deriva x^2.''), (''exerciseType'', JStr ''quiz'')]"

text \<open>A reply with an allowed type and no statement.\<close>

definition type_only_text :: string where
  "type_only_text = ''{'' @ quoted ''exerciseType'' @ '':'' @ quoted ''mixed_rules'' @ ''}''"

definition type_only_object :: jsval where
  "type_only_object = JObj [(''exerciseType'', JStr ''mixed_rules'')]"

definition sample_parse :: "string \<Rightarrow> jsval option" where
  "sample_parse s =
     (if s = reply_text ''150'' then Some (reply_object (JNum (Fin 150)))
      else if s = reply_text ''85.5'' then Some (reply_object (JNum (Fin (171 / 2))))
      else if s = reply_text (quoted ''85'') then Some (reply_object (JStr ''85''))
      else if s = exercise_text then Some exercise_object
      else if s = type_only_text then Some type_only_object
      else None)"

definition sample_world :: "completion_result \<Rightarrow> world" where
  "sample_world c =
     \<lparr>apiKey = Some ''secret'',
      image = Fetched True (Some ''image/png'') ''iVBORw0KGgo='',
      subtopics = QueryNothing,
      completion = c,
      json_parse = sample_parse\<rparr>"

definition post :: "(string \<times> jsval) list \<Rightarrow> request" where
  "post kvs = \<lparr>req_method = ''POST'', req_body = JObj kvs\<rparr>"

definition answer_fields :: "(string \<times> jsval) list" where
  "answer_fields =
     [(''statement'', JStr ''Calcula a derivada de x^2.''),
      (''imageUrl'', JStr ''https://cdn.example/solution.png''),
      (''exerciseIndex'', JNum (Fin 2))]"

section \<open>Properties\<close>

subsection \<open>Auxiliary facts\<close>

text \<open>The bound of \<open>double_range\<close> as a numeral, for evaluation.\<close>

lemma double_bound_value:
  "(2::rat) ^ 1024 - 2 ^ 970 =
     179769313486231580793728971405303415079934132710037826936173778980444968292764750946649017977587207096330286416692887910946555547851940402630657488671505820681908902000708383676273854845817711531764475730270069855571366959622842914819860834936475292719074168444365510704342711559699508093042880177904174497792"
  by simp

lemma double_range_code [code]:
  "double_range x =
     (if 179769313486231580793728971405303415079934132710037826936173778980444968292764750946649017977587207096330286416692887910946555547851940402630657488671505820681908902000708383676273854845817711531764475730270069855571366959622842914819860834936475292719074168444365510704342711559699508093042880177904174497792 \<le> x
      then PosInf
      else if x \<le> - 179769313486231580793728971405303415079934132710037826936173778980444968292764750946649017977587207096330286416692887910946555547851940402630657488671505820681908902000708383676273854845817711531764475730270069855571366959622842914819860834936475292719074168444365510704342711559699508093042880177904174497792
      then NegInf
      else Fin x)"
  unfolding double_range_def double_bound_value ..

lemma sanitize_fin:
  "sanitizeExerciseIndex (JNum (Fin x)) =
     Inr (if x < 1 then Fin 1 else if 3 < x then Fin 3 else Fin (of_int \<lfloor>x\<rfloor>))"
  by (simp add: sanitizeExerciseIndex_def Number_isNaN_def num_gt_def)

lemma floor_in_range:
  fixes x :: rat
  assumes "1 \<le> x" "x \<le> 3"
  shows "\<lfloor>x\<rfloor> = 1 \<or> \<lfloor>x\<rfloor> = 2 \<or> \<lfloor>x\<rfloor> = 3"
proof -
  have "1 \<le> \<lfloor>x\<rfloor>" using assms(1) by (simp add: le_floor_iff)
  moreover have "\<lfloor>x\<rfloor> \<le> 3" using assms(2) by (simp add: floor_le_iff)
  ultimately show ?thesis by arith
qed

lemma missing_text_iff: "missing_text v \<longleftrightarrow> \<not> (\<exists>s. v = JStr s \<and> trim s \<noteq> [])"
  by (cases v) (auto simp: missing_text_def trim_def)

lemma evaluatePrologue_guards:
  assumes "\<not> nullish b"
    and "sanitizeExerciseIndex (getProp b ''exerciseIndex'') = Inr idx"
    and "missing_text (getProp b ''statement'') \<or> missing_text (getProp b ''imageUrl'') \<or>
         missing_key key"
  shows "evaluatePrologue key b = Inl (fallbackResponse idx)"
  using assms by (auto simp: evaluatePrologue_def Let_def)

lemma evaluateAnswer_reached:
  assumes "req_method req = ''POST''"
    and "evaluatePrologue (apiKey w) (req_body req) = Inr c"
    and "fetchImage (image w) = Some img"
    and "\<not> prompt_throws c"
    and "completion w = CompletionText (Some t)"
    and "t \<noteq> []"
  shows "evaluateAnswer fetchImage gradeText w req =
     (Responded 200
        (Evaluation (catchGrade (ctx_index c) (gradeText (json_parse w) (ctx_index c) t))),
      [FetchImage (ctx_imageUrl c), CallCompletion])"
  using assms by (simp add: evaluateAnswer_def tryGrade_def)

lemma clamp_fin:
  "math_max (Fin 0) (math_min (Fin 100) (Fin (of_int n))) = Fin (of_int (max 0 (min 100 n)))"
  by (auto simp: math_max_def math_min_def max_def min_def)

lemma validateEvaluation_valid:
  assumes "JSON_parse p s = Inr parsed" "\<not> nullish parsed"
    and "getProp parsed ''result'' = JStr r" "r \<in> set ALLOWED_RESULTS"
    and "toNumber (getProp parsed ''score'') = Inr (Fin x)"
    and "getProp parsed ''feedbackSummary'' = JStr f" "trim f \<noteq> []"
  shows "validateEvaluation p idx s =
     Inr \<lparr>result = r, score = Fin (of_int (max 0 (min 100 (round x)))),
          feedbackSummary = trim f\<rparr>"
  using assms
  by (simp add: validateEvaluation_def includes_val_def nonblank_string_def clamp_fin)

lemma gradeText_openai_number:
  assumes "JSON_parse p s = Inr parsed" "\<not> nullish parsed"
    and "getProp parsed ''result'' = JStr r" "r \<in> set ALLOWED_RESULTS"
    and "getProp parsed ''score'' = JNum (Fin x)"
    and "getProp parsed ''feedbackSummary'' = JStr f" "f \<noteq> []"
  shows "gradeText_openai p idx s =
     Inr (if 0 \<le> x \<and> x \<le> 100 then \<lparr>result = r, score = Fin x, feedbackSummary = f\<rparr>
          else getFallbackEvaluation idx)"
  using assms by (auto simp: gradeText_openai_def includes_val_def num_ge_def num_le_def)

lemma sample_prologue:
  "evaluatePrologue (apiKey (sample_world c)) (req_body (post answer_fields)) =
     Inr \<lparr>ctx_index = Fin 2, ctx_imageUrl = ''https://cdn.example/solution.png'',
          ctx_subtopicName = JStr ''Derivadas'', ctx_difficulty = JStr ''medium''\<rparr>"
  by (simp add: sample_world_def post_def answer_fields_def evaluatePrologue_def nullish_def
      with_default_def sanitize_fin missing_text_def missing_key_def toString_call_throws_def
      trim_def js_ws_def)

subsection \<open>The fallback records\<close>

text \<open>
  Claim C2. The fallback record is a function of the exercise index alone: index 1 gives the
  record with \<^verbatim>\<open>correct\<close> and 100 (the \<^verbatim>\<open>basic_procedural\<close> exercise), index 2 the one
  with \<^verbatim>\<open>partial\<close> and 60 (\<^verbatim>\<open>mixed_rules\<close>), and index 3 or any other value the one with
  \<^verbatim>\<open>incorrect\<close> and 20 (\<^verbatim>\<open>applied_word_problem\<close>). The functions read nothing but their
  argument, so calling them again gives the same record.
\<close>

theorem fallback_by_index:
  "result (getFallbackEvaluation (Fin 1)) = ''correct'' \<and>
   score (getFallbackEvaluation (Fin 1)) = Fin 100 \<and>
   result (getFallbackEvaluation (Fin 2)) = ''partial'' \<and>
   score (getFallbackEvaluation (Fin 2)) = Fin 60 \<and>
   result (getFallbackEvaluation (Fin 3)) = ''incorrect'' \<and>
   score (getFallbackEvaluation (Fin 3)) = Fin 20 \<and>
   (\<forall>i. i \<noteq> Fin 1 \<and> i \<noteq> Fin 2 \<longrightarrow> getFallbackEvaluation i = getFallbackEvaluation (Fin 3)) \<and>
   exerciseType (localFallback (Fin 1)) = ''basic_procedural'' \<and>
   exerciseType (localFallback (Fin 2)) = ''mixed_rules'' \<and>
   exerciseType (localFallback (Fin 3)) = ''applied_word_problem'' \<and>
   (\<forall>i. i \<noteq> Fin 1 \<and> i \<noteq> Fin 2 \<longrightarrow> localFallback i = localFallback (Fin 3)) \<and>
   exerciseType (localFallback_strict (Fin 1)) = ''basic_procedural'' \<and>
   exerciseType (localFallback_strict (Fin 2)) = ''mixed_rules'' \<and>
   exerciseType (localFallback_strict (Fin 3)) = ''applied_word_problem'' \<and>
   (\<forall>i. i \<noteq> Fin 1 \<and> i \<noteq> Fin 2 \<longrightarrow> localFallback_strict i = localFallback_strict (Fin 3))"
  by (simp add: getFallbackEvaluation_def localFallback_def localFallback_strict_def)

theorem fallback_by_index_witness:
  "getFallbackEvaluation NaN = getFallbackEvaluation (Fin 3) \<and>
   localFallback (Fin 7) = localFallback (Fin 3) \<and>
   localFallback_strict (Fin (5 / 2)) = localFallback_strict (Fin 3)"
proof -
  have "NaN \<noteq> Fin 1 \<and> NaN \<noteq> Fin 2" and "Fin 7 \<noteq> Fin 1 \<and> Fin 7 \<noteq> Fin 2"
    and "Fin (5 / 2) \<noteq> Fin 1 \<and> Fin (5 / 2) \<noteq> Fin 2"
    by simp_all
  with fallback_by_index show ?thesis by blast
qed

subsection \<open>Sanitizing the exercise index\<close>

text \<open>
  Claim C3, as the code has it. For an index of the declared type (missing, or a number) the
  result is 1, 2 or 3: a missing index, \<^verbatim>\<open>NaN\<close> and every number below 1 give 1, every
  number above 3 gives 3, and a number from 1 to 3 is rounded down. The values \<^verbatim>\<open>null\<close>,
  \<^verbatim>\<open>false\<close> and the empty string give 1 as well. The function returns on each of these.
\<close>

theorem sanitize_declared_type:
  "sanitizeExerciseIndex JUndefined = Inr (Fin 1) \<and>
   sanitizeExerciseIndex (JNum NaN) = Inr (Fin 1) \<and>
   sanitizeExerciseIndex (JNum NegInf) = Inr (Fin 1) \<and>
   sanitizeExerciseIndex (JNum PosInf) = Inr (Fin 3) \<and>
   (\<forall>x. x < 1 \<longrightarrow> sanitizeExerciseIndex (JNum (Fin x)) = Inr (Fin 1)) \<and>
   (\<forall>x. 3 < x \<longrightarrow> sanitizeExerciseIndex (JNum (Fin x)) = Inr (Fin 3)) \<and>
   (\<forall>x. 1 \<le> x \<and> x \<le> 3 \<longrightarrow>
        sanitizeExerciseIndex (JNum (Fin x)) = Inr (Fin (of_int \<lfloor>x\<rfloor>))) \<and>
   (\<forall>v. v = JUndefined \<or> is_number v \<longrightarrow>
        sanitizeExerciseIndex v \<in> {Inr (Fin 1), Inr (Fin 2), Inr (Fin 3)}) \<and>
   sanitizeExerciseIndex JNull = Inr (Fin 1) \<and>
   sanitizeExerciseIndex (JBool False) = Inr (Fin 1) \<and>
   sanitizeExerciseIndex (JStr []) = Inr (Fin 1)"
proof -
  have typed: "sanitizeExerciseIndex v \<in> {Inr (Fin 1), Inr (Fin 2), Inr (Fin 3)}"
    if "v = JUndefined \<or> is_number v" for v
  proof (cases v)
    case (JNum n)
    show ?thesis
    proof (cases n)
      case (Fin x)
      then show ?thesis using JNum floor_in_range[of x] by (auto simp: sanitize_fin)
    qed (simp_all add: JNum sanitizeExerciseIndex_def Number_isNaN_def num_gt_def)
  qed (use that in \<open>simp_all add: sanitizeExerciseIndex_def\<close>)
  show ?thesis
    using typed
    by (simp add: sanitize_fin) (simp add: sanitizeExerciseIndex_def Number_isNaN_def num_gt_def)
qed

theorem sanitize_declared_type_witness:
  "sanitizeExerciseIndex (JNum (Fin 0)) = Inr (Fin 1) \<and>
   sanitizeExerciseIndex (JNum (Fin 7)) = Inr (Fin 3) \<and>
   sanitizeExerciseIndex (JNum (Fin (5 / 2))) = Inr (Fin 2) \<and>
   sanitizeExerciseIndex (JNum (Fin (5 / 2))) \<in> {Inr (Fin 1), Inr (Fin 2), Inr (Fin 3)}"
proof -
  have fl: "\<lfloor>5 / 2 :: rat\<rfloor> = 2" by code_simp
  show ?thesis using sanitize_declared_type fl by simp
qed

text \<open>A string that is not a numeral is truthy and converts to \<^verbatim>\<open>NaN\<close>, which passes both
  comparisons and \<^verbatim>\<open>Math.floor\<close>: the result is \<^verbatim>\<open>NaN\<close>, not 1.\<close>

theorem sanitize_string_counterexample:
  "sanitizeExerciseIndex (JStr ''abc'') = Inr NaN \<and>
   sanitizeExerciseIndex (JStr ''abc'') \<notin> {Inr (Fin 1), Inr (Fin 2), Inr (Fin 3)}"
  by code_simp


subsection \<open>evaluateAnswer: the guards before the image fetch\<close>

text \<open>
  Where the body is a value whose properties can be read and \<^verbatim>\<open>sanitizeExerciseIndex\<close>
  returns on its \<^verbatim>\<open>exerciseIndex\<close>: if the statement or the image URL is missing, not a
  string or empty after trimming (\<open>missing_text\<close>, see \<open>missing_text_iff\<close>), or there is
  no credential in the environment, each of the three variants answers 200 with the fallback
  record of the sanitized exercise index and calls neither the image fetch nor the completion
  service.
\<close>

theorem missing_input_short_circuits:
  assumes "req_method req = ''POST''"
    and "\<not> nullish (req_body req)"
    and "sanitizeExerciseIndex (getProp (req_body req) ''exerciseIndex'') = Inr idx"
    and "missing_text (getProp (req_body req) ''statement'') \<or>
         missing_text (getProp (req_body req) ''imageUrl'') \<or>
         missing_key (apiKey w)"
  shows "handler_evaluate_gemini w req = (fallbackResponse idx, []) \<and>
         handler_evaluate_openai w req = (fallbackResponse idx, []) \<and>
         handler_evaluate_genai w req = (fallbackResponse idx, [])"
  using evaluatePrologue_guards[OF assms(2,3,4)] assms(1)
  by (simp add: handler_evaluate_gemini_def handler_evaluate_openai_def
      handler_evaluate_genai_def evaluateAnswer_def)

theorem missing_input_short_circuits_witness:
  "handler_evaluate_gemini (sample_world CompletionRejected)
     (post [(''statement'', JStr ''Calcula.''), (''exerciseIndex'', JNum (Fin 3))]) =
     (fallbackResponse (Fin 3), []) \<and>
   handler_evaluate_openai (sample_world CompletionRejected)
     (post [(''statement'', JStr ''Calcula.''), (''exerciseIndex'', JNum (Fin 3))]) =
     (fallbackResponse (Fin 3), []) \<and>
   handler_evaluate_genai (sample_world CompletionRejected)
     (post [(''statement'', JStr ''Calcula.''), (''exerciseIndex'', JNum (Fin 3))]) =
     (fallbackResponse (Fin 3), [])"
proof -
  let ?req = "post [(''statement'', JStr ''Calcula.''), (''exerciseIndex'', JNum (Fin 3))]"
  have 1: "req_method ?req = ''POST''" by (simp add: post_def)
  have 2: "\<not> nullish (req_body ?req)" by (simp add: post_def nullish_def)
  have 3: "sanitizeExerciseIndex (getProp (req_body ?req) ''exerciseIndex'') = Inr (Fin 3)"
    by (simp add: post_def sanitize_fin)
  have 4: "missing_text (getProp (req_body ?req) ''statement'') \<or>
           missing_text (getProp (req_body ?req) ''imageUrl'') \<or>
           missing_key (apiKey (sample_world CompletionRejected))"
    by (simp add: post_def missing_text_def)
  show ?thesis by (rule missing_input_short_circuits[OF 1 2 3 4])
qed

text \<open>
  Claim C7, at inputs where the code does not answer. A POST request with an image URL, no
  statement and \<^verbatim>\<open>"exerciseIndex": {"toString": 1}\<close> does not reach the test of the
  statement: \<^verbatim>\<open>sanitizeExerciseIndex\<close> is called first (line 69), its comparison
  \<^verbatim>\<open>index < 1\<close> converts the object to a primitive, and the object's own
  \<^verbatim>\<open>toString\<close> is not callable, so a \<^verbatim>\<open>TypeError\<close> is raised outside every
  \<^verbatim>\<open>try\<close>. A POST request whose body is \<^verbatim>\<open>null\<close> has no statement either and fails
  in the destructuring before it. In both cases the three variants send no response, where the
  claim has status 200 and the fallback record.
\<close>

theorem missing_statement_throws:
  "handler_evaluate_gemini (sample_world CompletionRejected)
     (post [(''imageUrl'', JStr ''https://cdn.example/solution.png''),
            (''exerciseIndex'', JObj [(''toString'', JNum (Fin 1))])]) = (Threw TypeError, []) \<and>
   handler_evaluate_openai (sample_world CompletionRejected)
     (post [(''imageUrl'', JStr ''https://cdn.example/solution.png''),
            (''exerciseIndex'', JObj [(''toString'', JNum (Fin 1))])]) = (Threw TypeError, []) \<and>
   handler_evaluate_genai (sample_world CompletionRejected)
     (post [(''imageUrl'', JStr ''https://cdn.example/solution.png''),
            (''exerciseIndex'', JObj [(''toString'', JNum (Fin 1))])]) = (Threw TypeError, []) \<and>
   handler_evaluate_openai (sample_world CompletionRejected)
     \<lparr>req_method = ''POST'', req_body = JNull\<rparr> = (Threw TypeError, []) \<and>
   handler_evaluate_genai (sample_world CompletionRejected)
     \<lparr>req_method = ''POST'', req_body = JNull\<rparr> = (Threw TypeError, [])"
  by code_simp

subsection \<open>evaluateAnswer: a completion that meets the schema\<close>

text \<open>
  Claim C4, as the code has it. The request has passed the guards and the image fetch, and the
  completion text parses to a value with an allowed result and a string as feedback.
  In the two Gemini variants, when the score converts to a finite number and the feedback is
  not blank, the handler returns the parsed result, the score rounded to the nearest integer
  and clamped into 0 to 100, and the trimmed feedback. In the OpenAI variant, when the score
  is a finite number and the feedback is not empty, the handler returns the three parsed
  fields unchanged if the score lies in 0 to 100, and the fallback record otherwise.
\<close>

theorem valid_completion_returned:
  assumes "req_method req = ''POST''"
    and "evaluatePrologue (apiKey w) (req_body req) = Inr c"
    and "\<not> prompt_throws c"
    and "completion w = CompletionText (Some t)"
    and "t \<noteq> []"
    and "\<not> nullish parsed"
    and "getProp parsed ''result'' = JStr r" "r \<in> set ALLOWED_RESULTS"
    and "getProp parsed ''feedbackSummary'' = JStr f"
  shows
   "(fetchImage_gemini (image w) \<noteq> None \<and>
     JSON_parse (json_parse w) (cleanJsonText t) = Inr parsed \<and>
     toNumber (getProp parsed ''score'') = Inr (Fin x) \<and> trim f \<noteq> [] \<longrightarrow>
     handler_evaluate_gemini w req =
       (Responded 200 (Evaluation \<lparr>result = r, score = Fin (of_int (max 0 (min 100 (round x)))),
                                   feedbackSummary = trim f\<rparr>),
        [FetchImage (ctx_imageUrl c), CallCompletion])) \<and>
    (fetchImage_genai (image w) \<noteq> None \<and>
     JSON_parse (json_parse w) t = Inr parsed \<and>
     toNumber (getProp parsed ''score'') = Inr (Fin x) \<and> trim f \<noteq> [] \<longrightarrow>
     handler_evaluate_genai w req =
       (Responded 200 (Evaluation \<lparr>result = r, score = Fin (of_int (max 0 (min 100 (round x)))),
                                   feedbackSummary = trim f\<rparr>),
        [FetchImage (ctx_imageUrl c), CallCompletion])) \<and>
    (fetchImage_openai (image w) \<noteq> None \<and>
     JSON_parse (json_parse w) t = Inr parsed \<and>
     getProp parsed ''score'' = JNum (Fin x) \<and> f \<noteq> [] \<longrightarrow>
     handler_evaluate_openai w req =
       (Responded 200 (Evaluation
          (if 0 \<le> x \<and> x \<le> 100 then \<lparr>result = r, score = Fin x, feedbackSummary = f\<rparr>
           else getFallbackEvaluation (ctx_index c))),
        [FetchImage (ctx_imageUrl c), CallCompletion]))"
proof (intro conjI impI)
  assume h: "fetchImage_gemini (image w) \<noteq> None \<and>
     JSON_parse (json_parse w) (cleanJsonText t) = Inr parsed \<and>
     toNumber (getProp parsed ''score'') = Inr (Fin x) \<and> trim f \<noteq> []"
  then obtain img where "fetchImage_gemini (image w) = Some img" by auto
  from evaluateAnswer_reached[where fetchImage = fetchImage_gemini, OF assms(1,2) this assms(3,4,5)]
    h assms(6-9)
  show "handler_evaluate_gemini w req =
       (Responded 200 (Evaluation \<lparr>result = r, score = Fin (of_int (max 0 (min 100 (round x)))),
                                   feedbackSummary = trim f\<rparr>),
        [FetchImage (ctx_imageUrl c), CallCompletion])"
    by (simp add: handler_evaluate_gemini_def gradeText_gemini_def validateEvaluation_valid
        catchGrade_def)
next
  assume h: "fetchImage_genai (image w) \<noteq> None \<and>
     JSON_parse (json_parse w) t = Inr parsed \<and>
     toNumber (getProp parsed ''score'') = Inr (Fin x) \<and> trim f \<noteq> []"
  then obtain img where "fetchImage_genai (image w) = Some img" by auto
  from evaluateAnswer_reached[where fetchImage = fetchImage_genai, OF assms(1,2) this assms(3,4,5)]
    h assms(6-9)
  show "handler_evaluate_genai w req =
       (Responded 200 (Evaluation \<lparr>result = r, score = Fin (of_int (max 0 (min 100 (round x)))),
                                   feedbackSummary = trim f\<rparr>),
        [FetchImage (ctx_imageUrl c), CallCompletion])"
    by (simp add: handler_evaluate_genai_def gradeText_genai_def validateEvaluation_valid
        catchGrade_def)
next
  assume h: "fetchImage_openai (image w) \<noteq> None \<and>
     JSON_parse (json_parse w) t = Inr parsed \<and>
     getProp parsed ''score'' = JNum (Fin x) \<and> f \<noteq> []"
  then obtain img where "fetchImage_openai (image w) = Some img" by auto
  from evaluateAnswer_reached[where fetchImage = fetchImage_openai, OF assms(1,2) this assms(3,4,5)]
    h assms(6-9)
  show "handler_evaluate_openai w req =
       (Responded 200 (Evaluation
          (if 0 \<le> x \<and> x \<le> 100 then \<lparr>result = r, score = Fin x, feedbackSummary = f\<rparr>
           else getFallbackEvaluation (ctx_index c))),
        [FetchImage (ctx_imageUrl c), CallCompletion])"
    by (simp add: handler_evaluate_openai_def gradeText_openai_number catchGrade_def)
qed

theorem valid_completion_returned_witness:
  "handler_evaluate_gemini (sample_world (CompletionText (Some (reply_text ''85.5''))))
     (post answer_fields) =
     (Responded 200 (Evaluation \<lparr>result = ''correct'', score = Fin 86, feedbackSummary = ''ok''\<rparr>),
      [FetchImage ''https://cdn.example/solution.png'', CallCompletion]) \<and>
   handler_evaluate_genai (sample_world (CompletionText (Some (reply_text ''85.5''))))
     (post answer_fields) =
     (Responded 200 (Evaluation \<lparr>result = ''correct'', score = Fin 86, feedbackSummary = ''ok''\<rparr>),
      [FetchImage ''https://cdn.example/solution.png'', CallCompletion]) \<and>
   handler_evaluate_openai (sample_world (CompletionText (Some (reply_text ''85.5''))))
     (post answer_fields) =
     (Responded 200 (Evaluation \<lparr>result = ''correct'', score = Fin (171 / 2),
                                 feedbackSummary = '' ok ''\<rparr>),
      [FetchImage ''https://cdn.example/solution.png'', CallCompletion])"
proof -
  let ?w = "sample_world (CompletionText (Some (reply_text ''85.5'')))"
  let ?req = "post answer_fields"
  let ?c = "\<lparr>ctx_index = Fin 2, ctx_imageUrl = ''https://cdn.example/solution.png'',
            ctx_subtopicName = JStr ''Derivadas'', ctx_difficulty = JStr ''medium''\<rparr>"
  let ?parsed = "reply_object (JNum (Fin (171 / 2)))"
  have 1: "req_method ?req = ''POST''" by (simp add: post_def)
  have 2: "evaluatePrologue (apiKey ?w) (req_body ?req) = Inr ?c" by (rule sample_prologue)
  have 3: "\<not> prompt_throws ?c" by (simp add: prompt_throws_def)
  have 4: "completion ?w = CompletionText (Some (reply_text ''85.5''))"
    by (simp add: sample_world_def)
  have 5: "reply_text ''85.5'' \<noteq> []" by (simp add: reply_text_def)
  have 6: "\<not> nullish ?parsed" by (simp add: reply_object_def nullish_def)
  have 7: "getProp ?parsed ''result'' = JStr ''correct''" by (simp add: reply_object_def)
  have 8: "''correct'' \<in> set ALLOWED_RESULTS" by (simp add: ALLOWED_RESULTS_def)
  have 9: "getProp ?parsed ''feedbackSummary'' = JStr '' ok ''" by (simp add: reply_object_def)
  have g1: "fetchImage_gemini (image ?w) \<noteq> None" "fetchImage_genai (image ?w) \<noteq> None"
    "fetchImage_openai (image ?w) \<noteq> None"
    by (simp_all add: sample_world_def fetchImage_gemini_def fetchImage_genai_def
        fetchImage_openai_def)
  have g2: "JSON_parse (json_parse ?w) (cleanJsonText (reply_text ''85.5'')) = Inr ?parsed"
    "JSON_parse (json_parse ?w) (reply_text ''85.5'') = Inr ?parsed"
    by code_simp+
  have g3: "toNumber (getProp ?parsed ''score'') = Inr (Fin (171 / 2))"
    "getProp ?parsed ''score'' = JNum (Fin (171 / 2))"
    by (simp_all add: reply_object_def)
  have g4: "trim '' ok '' = ''ok''" by code_simp
  have g5: "round (171 / 2 :: rat) = 86" by code_simp
  from valid_completion_returned[OF 1 2 3 4 5 6 7 8 9, of "171 / 2"] g1 g2 g3 g4 g5
  show ?thesis by simp
qed

text \<open>In the OpenAI variant a score of 150 is not clamped to 100 but rejected, and a score of
  85.5 and a feedback with blanks around it are returned as they are.\<close>

theorem openai_counterexample:
  "handler_evaluate_openai (sample_world (CompletionText (Some (reply_text ''150''))))
     (post answer_fields) =
     (fallbackResponse (Fin 2), [FetchImage ''https://cdn.example/solution.png'', CallCompletion]) \<and>
   fallbackResponse (Fin 2) \<noteq>
     Responded 200 (Evaluation \<lparr>result = ''correct'', score = Fin 100, feedbackSummary = ''ok''\<rparr>) \<and>
   handler_evaluate_openai (sample_world (CompletionText (Some (reply_text ''85.5''))))
     (post answer_fields) =
     (Responded 200 (Evaluation \<lparr>result = ''correct'', score = Fin (171 / 2),
                                 feedbackSummary = '' ok ''\<rparr>),
      [FetchImage ''https://cdn.example/solution.png'', CallCompletion])"
  by code_simp

subsection \<open>evaluateAnswer: an exception that leaves the handler\<close>

text \<open>
  Claim C1, at an input where the code does not answer. A POST request with a statement, an
  image URL and \<^verbatim>\<open>"userAnswer": null\<close> passes the three guards and reaches
  \<^verbatim>\<open>userAnswer.toString()\<close>, which raises a \<^verbatim>\<open>TypeError\<close> outside every \<^verbatim>\<open>try\<close>:
  the three variants send no response. A request whose body is \<^verbatim>\<open>null\<close> fails the same
  way in the destructuring.
\<close>

theorem evaluateAnswer_throws:
  "handler_evaluate_gemini (sample_world (CompletionText (Some (reply_text ''85.5''))))
     (post ((''userAnswer'', JNull) # answer_fields)) = (Threw TypeError, []) \<and>
   handler_evaluate_openai (sample_world (CompletionText (Some (reply_text ''85.5''))))
     (post ((''userAnswer'', JNull) # answer_fields)) = (Threw TypeError, []) \<and>
   handler_evaluate_genai (sample_world (CompletionText (Some (reply_text ''85.5''))))
     (post ((''userAnswer'', JNull) # answer_fields)) = (Threw TypeError, []) \<and>
   handler_evaluate_gemini (sample_world (CompletionText (Some (reply_text ''85.5''))))
     \<lparr>req_method = ''POST'', req_body = JNull\<rparr> = (Threw TypeError, [])"
  by code_simp

subsection \<open>generateExercise: auxiliary facts\<close>


lemma pickExerciseType_allowed: "pickExerciseType s d i = Inr t \<Longrightarrow> t \<in> set allowedTypes"
  by (auto simp: pickExerciseType_def allowedTypes_def split: sum.splits if_splits)

lemma pickExerciseType_basic_allowed:
  "pickExerciseType_basic s d i = Inr t \<Longrightarrow> t \<in> set allowedTypes"
  by (auto simp: pickExerciseType_basic_def allowedTypes_def split: sum.splits if_splits)

lemma chooseExerciseTypeHint_allowed: "chooseExerciseTypeHint i d \<in> set allowedTypes"
  by (simp add: chooseExerciseTypeHint_def allowedTypes_def)

lemma localFallback_allowed:
  "exerciseType (localFallback i) \<in> set allowedTypes"
  "exerciseType (localFallback_strict i) \<in> set allowedTypes"
  by (simp_all add: localFallback_def localFallback_strict_def allowedTypes_def)

lemma prepare_supabase_hint:
  "prepare_supabase w b = (Inr c, calls) \<Longrightarrow> gen_hint c \<in> set allowedTypes"
  by (auto simp: prepare_supabase_def Let_def split: sum.splits if_splits
      dest: pickExerciseType_allowed)

lemma prepare_hint_hint:
  "prepare_hint w b = (Inr c, calls) \<Longrightarrow> gen_hint c \<in> set allowedTypes"
  by (auto simp: prepare_hint_def Let_def chooseExerciseTypeHint_allowed
      split: sum.splits if_splits)

lemma prepare_basic_hint:
  "prepare_basic w b = (Inr c, calls) \<Longrightarrow> gen_hint c \<in> set allowedTypes"
  by (auto simp: prepare_basic_def Let_def split: sum.splits if_splits
      dest: pickExerciseType_basic_allowed)

lemma finishExercise_allowed:
  assumes "finishExercise g p fb hint cr = Inr (Responded n (Exercise d))"
    and "hint \<in> set allowedTypes" and "exerciseType fb \<in> set allowedTypes"
  shows "exerciseType d \<in> set allowedTypes"
  using assms
  by (auto simp: finishExercise_def Let_def includes_val_def
      split: completion_result.splits sum.splits if_splits)

lemma finish_strict_allowed:
  assumes "finish_strict p i cr = Inr (Responded n (Exercise d))"
  shows "exerciseType d \<in> set allowedTypes"
  using assms localFallback_allowed(2)[of i]
  by (auto simp: finish_strict_def Let_def includes_val_def
      split: completion_result.splits sum.splits if_splits)

lemma generateExercise_allowed:
  assumes hint: "\<And>c calls. prepare w (req_body req) = (Inr c, calls) \<Longrightarrow> gen_hint c \<in> set allowedTypes"
    and "fst (generateExercise prepare g w req) = Responded n (Exercise d)"
  shows "exerciseType d \<in> set allowedTypes"
proof (cases "prepare w (req_body req)")
  case (Pair r calls)
  show ?thesis
  proof (cases r)
    case (Inl e)
    with Pair assms(2) show ?thesis
      using localFallback_allowed(1)[of "Fin 1"]
      by (auto simp: generateExercise_def catchGenerate_def tryGenerate_def split: if_splits)
  next
    case (Inr c)
    with Pair have h: "gen_hint c \<in> set allowedTypes" by (auto intro: hint)
    show ?thesis
    proof (cases "finishExercise g (json_parse w) (localFallback (gen_index c)) (gen_hint c) (completion w)")
      case (Inl e)
      with Pair Inr assms(2) show ?thesis
        using localFallback_allowed(1)[of "Fin 1"]
        by (auto simp: generateExercise_def catchGenerate_def tryGenerate_def split: if_splits)
    next
      case fin: (Inr out)
      with Pair Inr assms(2) have "out = Responded n (Exercise d)"
        by (auto simp: generateExercise_def catchGenerate_def tryGenerate_def split: if_splits)
      with fin show ?thesis
        using finishExercise_allowed[OF _ h localFallback_allowed(1)] by blast
    qed
  qed
qed

lemma handler_generate_strict_allowed:
  assumes "fst (handler_generate_strict w req) = Responded n (Exercise d)"
  shows "exerciseType d \<in> set allowedTypes"
proof (cases "try_strict w (req_body req)")
  case (Pair r calls)
  show ?thesis
  proof (cases r)
    case (Inl e)
    with Pair assms show ?thesis
      using localFallback_allowed(2)[of "Fin 1"]
      by (auto simp: handler_generate_strict_def catchGenerate_def split: if_splits)
  next
    case (Inr out)
    with Pair assms have o: "out = Responded n (Exercise d)"
      by (auto simp: handler_generate_strict_def catchGenerate_def split: if_splits)
    with Pair Inr show ?thesis
      by (auto simp: try_strict_def Let_def split: if_splits dest: finish_strict_allowed)
  qed
qed

lemma finishExercise_parsed:
  assumes "JSON_parse p (rawContent t) = Inr parsed" "\<not> nullish parsed"
  shows "finishExercise g p fb hint (CompletionText t) =
     Inr (Responded 200 (Exercise
       \<lparr>statement = (if nonblank_string (getProp parsed ''statement'')
                     then trim (str_of (getProp parsed ''statement'')) else statement fb),
        exerciseType = (if includes_val allowedTypes (getProp parsed ''exerciseType'')
                        then str_of (getProp parsed ''exerciseType'') else hint)\<rparr>))"
proof -
  have "includes_val allowedTypes v \<Longrightarrow> truthy v" for v
    by (cases v) (auto simp: includes_val_def allowedTypes_def)
  then show ?thesis using assms by (auto simp: finishExercise_def Let_def)
qed

lemma finishExercise_unparsable:
  assumes "JSON_parse p (rawContent t) = Inl e"
  shows "finishExercise g p fb hint (CompletionText t) = Inr (Responded 200 (Exercise fb))"
  using assms by (simp add: finishExercise_def)

lemma generateExercise_prepared:
  assumes "req_method req = ''POST''" "prepare w (req_body req) = (Inr c, calls)"
  shows "generateExercise prepare g w req =
     (case finishExercise g (json_parse w) (localFallback (gen_index c)) (gen_hint c) (completion w) of
        Inl e \<Rightarrow> Responded 200 (Exercise (localFallback (Fin 1)))
      | Inr out \<Rightarrow> out, calls @ [CallCompletion])"
  using assms
  by (simp add: generateExercise_def tryGenerate_def catchGenerate_def split: sum.splits)

lemma generateExercise_not_prepared:
  assumes "req_method req = ''POST''" "prepare w (req_body req) = (Inl e, calls)"
  shows "generateExercise prepare g w req = (Responded 200 (Exercise (localFallback (Fin 1))), calls)"
  using assms by (simp add: generateExercise_def tryGenerate_def catchGenerate_def)

lemma prepare_supabase_ok:
  assumes "\<not> nullish b" "sanitizeExerciseIndex (getProp b ''exerciseIndex'') = Inr idx"
    and "subtopics w \<noteq> QueryRejected"
    and "pickExerciseType (subtopicLabel (subtopics w) b)
           (or_default (getProp b ''difficulty'') (JStr ''medium'')) idx = Inr h"
  shows "prepare_supabase w b = (Inr \<lparr>gen_index = idx, gen_hint = h\<rparr>, [QuerySubtopics])"
  using assms by (simp add: prepare_supabase_def Let_def)

lemma prepare_hint_ok:
  assumes "\<not> nullish b" "sanitizeExerciseIndex (getProp b ''exerciseIndex'') = Inr idx"
    and "trimmed_or_default (getProp b ''subtopicName'') = Inr sub"
  shows "prepare_hint w b =
     (Inr \<lparr>gen_index = idx,
           gen_hint = chooseExerciseTypeHint idx
             (if getProp b ''difficulty'' = JStr ''easy'' \<or> getProp b ''difficulty'' = JStr ''hard''
              then str_of (getProp b ''difficulty'') else ''medium'')\<rparr>, [])"
  using assms by (simp add: prepare_hint_def Let_def)

lemma prepare_basic_ok:
  assumes "\<not> nullish b" "sanitizeExerciseIndex (getProp b ''exerciseIndex'') = Inr idx"
    and "trimmed_or_default (getProp b ''subtopicName'') = Inr sub"
    and "pickExerciseType_basic (JStr sub) (or_default (getProp b ''difficulty'') (JStr ''medium'')) idx = Inr h"
  shows "prepare_basic w b = (Inr \<lparr>gen_index = idx, gen_hint = h\<rparr>, [])"
  using assms by (simp add: prepare_basic_def Let_def)

lemma try_strict_parsed:
  assumes "\<not> nullish b" "\<not> index_rejected (getProp b ''exerciseIndex'')"
    and "\<not> toStringThrows (getProp b ''subtopicName'')" "\<not> toStringThrows (getProp b ''difficulty'')"
    and "completion w = CompletionText t"
    and "JSON_parse (json_parse w) (rawContent t) = Inr parsed" "\<not> nullish parsed"
  shows "try_strict w b =
     (Inr (Responded 200 (Exercise
        \<lparr>statement = (if nonblank_string (getProp parsed ''statement'')
                      then str_of (getProp parsed ''statement'')
                      else statement (localFallback_strict (num_of (getProp b ''exerciseIndex'')))),
         exerciseType = (if includes_val allowedTypes (getProp parsed ''exerciseType'')
                         then str_of (getProp parsed ''exerciseType'')
                         else exerciseType (localFallback_strict (num_of (getProp b ''exerciseIndex''))))\<rparr>)),
      [CallCompletion])"
proof -
  have "includes_val allowedTypes v \<Longrightarrow> truthy v" for v
    by (cases v) (auto simp: includes_val_def allowedTypes_def)
  then show ?thesis using assms by (auto simp: try_strict_def finish_strict_def Let_def)
qed


subsection \<open>generateExercise: the exercise type of the response\<close>

text \<open>
  Claim C8. In \<^verbatim>\<open>generateExercise\<close>, when the completion parses to a value whose
  \<^verbatim>\<open>exerciseType\<close> is not one of the four enumerated strings, the returned
  \<^verbatim>\<open>exerciseType\<close> is the type computed from the request: \<^verbatim>\<open>pickExerciseType\<close> of the
  subtopic label, the difficulty and the sanitized index in the variant with the subtopic
  store and in the variant of \<^verbatim>\<open>evaluateAnswer.ts\<close>, lines 784 to 894;
  \<^verbatim>\<open>chooseExerciseTypeHint\<close> of the sanitized index and the difficulty in the second
  variant; the type of the index's fallback record in the variant that validates the index.
  In every variant, whatever the request and the replies, an exercise that is returned has
  one of the four enumerated types.
\<close>

theorem invalid_type_replaced_by_hint:
  "(req_method req = ''POST'' \<and> \<not> nullish (req_body req) \<and>
    completion w = CompletionText t \<and>
    JSON_parse (json_parse w) (rawContent t) = Inr parsed \<and> \<not> nullish parsed \<and>
    \<not> includes_val allowedTypes (getProp parsed ''exerciseType'') \<longrightarrow>
    (\<forall>idx h.
        sanitizeExerciseIndex (getProp (req_body req) ''exerciseIndex'') = Inr idx \<and>
        subtopics w \<noteq> QueryRejected \<and>
        pickExerciseType (subtopicLabel (subtopics w) (req_body req))
          (or_default (getProp (req_body req) ''difficulty'') (JStr ''medium'')) idx = Inr h \<longrightarrow>
        (\<exists>st. handler_generate_supabase w req =
           (Responded 200 (Exercise \<lparr>statement = st, exerciseType = h\<rparr>),
            [QuerySubtopics, CallCompletion]))) \<and>
    (\<forall>idx sub.
        sanitizeExerciseIndex (getProp (req_body req) ''exerciseIndex'') = Inr idx \<and>
        trimmed_or_default (getProp (req_body req) ''subtopicName'') = Inr sub \<longrightarrow>
        (\<exists>st. handler_generate_hint w req =
           (Responded 200 (Exercise
              \<lparr>statement = st,
               exerciseType = chooseExerciseTypeHint idx
                 (if getProp (req_body req) ''difficulty'' = JStr ''easy'' \<or>
                     getProp (req_body req) ''difficulty'' = JStr ''hard''
                  then str_of (getProp (req_body req) ''difficulty'') else ''medium'')\<rparr>),
            [CallCompletion]))) \<and>
    (\<forall>idx sub h.
        sanitizeExerciseIndex (getProp (req_body req) ''exerciseIndex'') = Inr idx \<and>
        trimmed_or_default (getProp (req_body req) ''subtopicName'') = Inr sub \<and>
        pickExerciseType_basic (JStr sub)
          (or_default (getProp (req_body req) ''difficulty'') (JStr ''medium'')) idx = Inr h \<longrightarrow>
        (\<exists>st. handler_generate_basic w req =
           (Responded 200 (Exercise \<lparr>statement = st, exerciseType = h\<rparr>), [CallCompletion]))) \<and>
    (\<not> index_rejected (getProp (req_body req) ''exerciseIndex'') \<and>
     \<not> toStringThrows (getProp (req_body req) ''subtopicName'') \<and>
     \<not> toStringThrows (getProp (req_body req) ''difficulty'') \<longrightarrow>
        (\<exists>st. handler_generate_strict w req =
           (Responded 200 (Exercise
              \<lparr>statement = st,
               exerciseType = exerciseType
                 (localFallback_strict (num_of (getProp (req_body req) ''exerciseIndex'')))\<rparr>),
            [CallCompletion])))) \<and>
   (\<forall>n d. fst (handler_generate_supabase w req) = Responded n (Exercise d) \<longrightarrow>
          exerciseType d \<in> set allowedTypes) \<and>
   (\<forall>n d. fst (handler_generate_hint w req) = Responded n (Exercise d) \<longrightarrow>
          exerciseType d \<in> set allowedTypes) \<and>
   (\<forall>n d. fst (handler_generate_basic w req) = Responded n (Exercise d) \<longrightarrow>
          exerciseType d \<in> set allowedTypes) \<and>
   (\<forall>n d. fst (handler_generate_strict w req) = Responded n (Exercise d) \<longrightarrow>
          exerciseType d \<in> set allowedTypes)"
proof (intro conjI impI allI)
  fix idx h
  assume r: "req_method req = ''POST'' \<and> \<not> nullish (req_body req) \<and>
    completion w = CompletionText t \<and>
    JSON_parse (json_parse w) (rawContent t) = Inr parsed \<and> \<not> nullish parsed \<and>
    \<not> includes_val allowedTypes (getProp parsed ''exerciseType'')"
  assume p: "sanitizeExerciseIndex (getProp (req_body req) ''exerciseIndex'') = Inr idx \<and>
        subtopics w \<noteq> QueryRejected \<and>
        pickExerciseType (subtopicLabel (subtopics w) (req_body req))
          (or_default (getProp (req_body req) ''difficulty'') (JStr ''medium'')) idx = Inr h"
  have "prepare_supabase w (req_body req) = (Inr \<lparr>gen_index = idx, gen_hint = h\<rparr>, [QuerySubtopics])"
    using r p by (intro prepare_supabase_ok) simp_all
  from generateExercise_prepared[where prepare = prepare_supabase, OF _ this] r
  show "\<exists>st. handler_generate_supabase w req =
           (Responded 200 (Exercise \<lparr>statement = st, exerciseType = h\<rparr>),
            [QuerySubtopics, CallCompletion])"
    by (simp add: handler_generate_supabase_def finishExercise_parsed)
next
  fix idx sub
  assume r: "req_method req = ''POST'' \<and> \<not> nullish (req_body req) \<and>
    completion w = CompletionText t \<and>
    JSON_parse (json_parse w) (rawContent t) = Inr parsed \<and> \<not> nullish parsed \<and>
    \<not> includes_val allowedTypes (getProp parsed ''exerciseType'')"
  assume p: "sanitizeExerciseIndex (getProp (req_body req) ''exerciseIndex'') = Inr idx \<and>
        trimmed_or_default (getProp (req_body req) ''subtopicName'') = Inr sub"
  from r p have "prepare_hint w (req_body req) =
     (Inr \<lparr>gen_index = idx,
           gen_hint = chooseExerciseTypeHint idx
             (if getProp (req_body req) ''difficulty'' = JStr ''easy'' \<or>
                 getProp (req_body req) ''difficulty'' = JStr ''hard''
              then str_of (getProp (req_body req) ''difficulty'') else ''medium'')\<rparr>, [])"
    by (intro prepare_hint_ok) simp_all
  from generateExercise_prepared[where prepare = prepare_hint, OF _ this] r
  show "\<exists>st. handler_generate_hint w req =
           (Responded 200 (Exercise
              \<lparr>statement = st,
               exerciseType = chooseExerciseTypeHint idx
                 (if getProp (req_body req) ''difficulty'' = JStr ''easy'' \<or>
                     getProp (req_body req) ''difficulty'' = JStr ''hard''
                  then str_of (getProp (req_body req) ''difficulty'') else ''medium'')\<rparr>),
            [CallCompletion])"
    by (simp add: handler_generate_hint_def finishExercise_parsed)
next
  fix idx sub h
  assume r: "req_method req = ''POST'' \<and> \<not> nullish (req_body req) \<and>
    completion w = CompletionText t \<and>
    JSON_parse (json_parse w) (rawContent t) = Inr parsed \<and> \<not> nullish parsed \<and>
    \<not> includes_val allowedTypes (getProp parsed ''exerciseType'')"
  assume p: "sanitizeExerciseIndex (getProp (req_body req) ''exerciseIndex'') = Inr idx \<and>
        trimmed_or_default (getProp (req_body req) ''subtopicName'') = Inr sub \<and>
        pickExerciseType_basic (JStr sub)
          (or_default (getProp (req_body req) ''difficulty'') (JStr ''medium'')) idx = Inr h"
  from r p have "prepare_basic w (req_body req) = (Inr \<lparr>gen_index = idx, gen_hint = h\<rparr>, [])"
    by (intro prepare_basic_ok[where sub = sub]) simp_all
  from generateExercise_prepared[where prepare = prepare_basic, OF _ this] r
  show "\<exists>st. handler_generate_basic w req =
           (Responded 200 (Exercise \<lparr>statement = st, exerciseType = h\<rparr>), [CallCompletion])"
    by (simp add: handler_generate_basic_def finishExercise_parsed)
next
  assume r: "req_method req = ''POST'' \<and> \<not> nullish (req_body req) \<and>
    completion w = CompletionText t \<and>
    JSON_parse (json_parse w) (rawContent t) = Inr parsed \<and> \<not> nullish parsed \<and>
    \<not> includes_val allowedTypes (getProp parsed ''exerciseType'')"
  assume p: "\<not> index_rejected (getProp (req_body req) ''exerciseIndex'') \<and>
     \<not> toStringThrows (getProp (req_body req) ''subtopicName'') \<and>
     \<not> toStringThrows (getProp (req_body req) ''difficulty'')"
  from r p have "try_strict w (req_body req) =
     (Inr (Responded 200 (Exercise
        \<lparr>statement = (if nonblank_string (getProp parsed ''statement'')
                      then str_of (getProp parsed ''statement'')
                      else statement (localFallback_strict (num_of (getProp (req_body req) ''exerciseIndex'')))),
         exerciseType = (if includes_val allowedTypes (getProp parsed ''exerciseType'')
                         then str_of (getProp parsed ''exerciseType'')
                         else exerciseType (localFallback_strict (num_of (getProp (req_body req) ''exerciseIndex''))))\<rparr>)),
      [CallCompletion])"
    by (intro try_strict_parsed[where t = t]) simp_all
  with r show "\<exists>st. handler_generate_strict w req =
           (Responded 200 (Exercise
              \<lparr>statement = st,
               exerciseType = exerciseType
                 (localFallback_strict (num_of (getProp (req_body req) ''exerciseIndex'')))\<rparr>),
            [CallCompletion])"
    by (simp add: handler_generate_strict_def catchGenerate_def)
next
  fix n d assume "fst (handler_generate_supabase w req) = Responded n (Exercise d)"
  then show "exerciseType d \<in> set allowedTypes"
    unfolding handler_generate_supabase_def
    by (rule generateExercise_allowed[rotated]) (rule prepare_supabase_hint)
next
  fix n d assume "fst (handler_generate_hint w req) = Responded n (Exercise d)"
  then show "exerciseType d \<in> set allowedTypes"
    unfolding handler_generate_hint_def
    by (rule generateExercise_allowed[rotated]) (rule prepare_hint_hint)
next
  fix n d assume "fst (handler_generate_basic w req) = Responded n (Exercise d)"
  then show "exerciseType d \<in> set allowedTypes"
    unfolding handler_generate_basic_def
    by (rule generateExercise_allowed[rotated]) (rule prepare_basic_hint)
next
  fix n d assume "fst (handler_generate_strict w req) = Responded n (Exercise d)"
  then show "exerciseType d \<in> set allowedTypes"
    by (rule handler_generate_strict_allowed)
qed


theorem invalid_type_replaced_by_hint_witness:
  "(\<exists>st. handler_generate_supabase (sample_world (CompletionText (Some exercise_text)))
          (post [(''exerciseIndex'', JNum (Fin 3)), (''difficulty'', JStr ''hard'')]) =
        (Responded 200 (Exercise \<lparr>statement = st, exerciseType = ''exam_multi_step''\<rparr>),
         [QuerySubtopics, CallCompletion])) \<and>
   (\<exists>st. handler_generate_hint (sample_world (CompletionText (Some exercise_text)))
          (post [(''exerciseIndex'', JNum (Fin 3)), (''difficulty'', JStr ''hard'')]) =
        (Responded 200 (Exercise \<lparr>statement = st, exerciseType = ''exam_multi_step''\<rparr>),
         [CallCompletion])) \<and>
   (\<exists>st. handler_generate_basic (sample_world (CompletionText (Some exercise_text)))
          (post [(''exerciseIndex'', JNum (Fin 3)), (''difficulty'', JStr ''hard'')]) =
        (Responded 200 (Exercise \<lparr>statement = st, exerciseType = ''exam_multi_step''\<rparr>),
         [CallCompletion])) \<and>
   (\<exists>st. handler_generate_strict (sample_world (CompletionText (Some exercise_text)))
          (post [(''exerciseIndex'', JNum (Fin 3)), (''difficulty'', JStr ''hard'')]) =
        (Responded 200 (Exercise \<lparr>statement = st, exerciseType = ''applied_word_problem''\<rparr>),
         [CallCompletion]))"
proof -
  let ?w = "sample_world (CompletionText (Some exercise_text))"
  let ?req = "post [(''exerciseIndex'', JNum (Fin 3)), (''difficulty'', JStr ''hard'')]"
  have pre: "req_method ?req = ''POST'' \<and> \<not> nullish (req_body ?req) \<and>
    completion ?w = CompletionText (Some exercise_text) \<and>
    JSON_parse (json_parse ?w) (rawContent (Some exercise_text)) = Inr exercise_object \<and>
    \<not> nullish exercise_object \<and>
    \<not> includes_val allowedTypes (getProp exercise_object ''exerciseType'')"
    by code_simp
  have a: "sanitizeExerciseIndex (getProp (req_body ?req) ''exerciseIndex'') = Inr (Fin 3) \<and>
        subtopics ?w \<noteq> QueryRejected \<and>
        pickExerciseType (subtopicLabel (subtopics ?w) (req_body ?req))
          (or_default (getProp (req_body ?req) ''difficulty'') (JStr ''medium'')) (Fin 3) =
          Inr ''exam_multi_step''"
    by code_simp
  have b: "sanitizeExerciseIndex (getProp (req_body ?req) ''exerciseIndex'') = Inr (Fin 3) \<and>
        trimmed_or_default (getProp (req_body ?req) ''subtopicName'') = Inr ''Derivadas''"
    by code_simp
  have b': "chooseExerciseTypeHint (Fin 3)
                 (if getProp (req_body ?req) ''difficulty'' = JStr ''easy'' \<or>
                     getProp (req_body ?req) ''difficulty'' = JStr ''hard''
                  then str_of (getProp (req_body ?req) ''difficulty'') else ''medium'') =
            ''exam_multi_step''"
    by code_simp
  have c: "sanitizeExerciseIndex (getProp (req_body ?req) ''exerciseIndex'') = Inr (Fin 3) \<and>
        trimmed_or_default (getProp (req_body ?req) ''subtopicName'') = Inr ''Derivadas'' \<and>
        pickExerciseType_basic (JStr ''Derivadas'')
          (or_default (getProp (req_body ?req) ''difficulty'') (JStr ''medium'')) (Fin 3) =
          Inr ''exam_multi_step''"
    by code_simp
  have d: "\<not> index_rejected (getProp (req_body ?req) ''exerciseIndex'') \<and>
     \<not> toStringThrows (getProp (req_body ?req) ''subtopicName'') \<and>
     \<not> toStringThrows (getProp (req_body ?req) ''difficulty'')"
    by code_simp
  have d': "exerciseType (localFallback_strict (num_of (getProp (req_body ?req) ''exerciseIndex''))) =
     ''applied_word_problem''"
    by code_simp
  note th = invalid_type_replaced_by_hint[of ?req ?w "Some exercise_text" exercise_object,
      THEN conjunct1, rule_format, OF pre]
  from th[THEN conjunct1, rule_format, OF a]
       th[THEN conjunct2, THEN conjunct1, rule_format, OF b]
       th[THEN conjunct2, THEN conjunct2, THEN conjunct1, rule_format, OF c]
       th[THEN conjunct2, THEN conjunct2, THEN conjunct2, rule_format, OF d]
  show ?thesis unfolding b' d' by (intro conjI)
qed

subsection \<open>generateExercise: the variant that validates the index\<close>

text \<open>
  Claim C9, at an input where the code does not answer 400. The test is
  \<^verbatim>\<open>typeof exerciseIndex !== "number" || exerciseIndex < 1 || exerciseIndex > 3\<close>, which the
  fractional index 2.5 passes: the request goes on to the completion service and is answered
  with status 200.
\<close>

theorem strict_accepts_fraction:
  "handler_generate_strict (sample_world (CompletionText (Some exercise_text)))
     (post [(''exerciseIndex'', JNum (Fin (5 / 2)))]) =
     (Responded 200 (Exercise \<lparr>statement = ''Deriva x^2.'', exerciseType = ''applied_word_problem''\<rparr>),
      [CallCompletion])"
  by code_simp

subsection \<open>generateExercise: the outer catch\<close>

lemma generate_rejected:
  assumes "req_method req = ''POST''" "completion w = CompletionRejected"
  shows "fst (generateExercise prepare g w req) = Responded 200 (Exercise (localFallback (Fin 1)))"
proof (cases "prepare w (req_body req)")
  case (Pair r calls)
  then show ?thesis using assms
    by (cases r)
      (simp_all add: generateExercise_def tryGenerate_def catchGenerate_def finishExercise_def)
qed

text \<open>
  Claim C10. In every variant of \<^verbatim>\<open>generateExercise\<close>, an exception that reaches the
  outer \<^verbatim>\<open>catch\<close> is answered with the fallback record of index 1, whatever the index of
  the request: so it is when the completion call fails (in the variant that validates the
  index, for an index that passed the validation), and so it is for every exception raised in
  the body of the \<^verbatim>\<open>try\<close>.
\<close>

theorem outer_catch_answers_index_1:
  "(req_method req = ''POST'' \<and> completion w = CompletionRejected \<longrightarrow>
      fst (handler_generate_supabase w req) = Responded 200 (Exercise (localFallback (Fin 1))) \<and>
      fst (handler_generate_hint w req) = Responded 200 (Exercise (localFallback (Fin 1))) \<and>
      fst (handler_generate_basic w req) = Responded 200 (Exercise (localFallback (Fin 1))) \<and>
      (\<not> index_rejected (getProp (req_body req) ''exerciseIndex'') \<longrightarrow>
         fst (handler_generate_strict w req) =
           Responded 200 (Exercise (localFallback_strict (Fin 1))))) \<and>
   (\<forall>e calls.
      req_method req = ''POST'' \<and>
      tryGenerate prepare_supabase False w (req_body req) = (Inl e, calls) \<longrightarrow>
      handler_generate_supabase w req =
        (Responded 200 (Exercise (localFallback (Fin 1))), calls)) \<and>
   (\<forall>e calls.
      req_method req = ''POST'' \<and>
      tryGenerate prepare_hint True w (req_body req) = (Inl e, calls) \<longrightarrow>
      handler_generate_hint w req =
        (Responded 200 (Exercise (localFallback (Fin 1))), calls)) \<and>
   (\<forall>e calls.
      req_method req = ''POST'' \<and>
      tryGenerate prepare_basic False w (req_body req) = (Inl e, calls) \<longrightarrow>
      handler_generate_basic w req =
        (Responded 200 (Exercise (localFallback (Fin 1))), calls)) \<and>
   (\<forall>e calls.
      req_method req = ''POST'' \<and> try_strict w (req_body req) = (Inl e, calls) \<longrightarrow>
      handler_generate_strict w req =
        (Responded 200 (Exercise (localFallback_strict (Fin 1))), calls))"
proof -
  have strict: "fst (handler_generate_strict w req) =
           Responded 200 (Exercise (localFallback_strict (Fin 1)))"
    if "req_method req = ''POST''" "completion w = CompletionRejected"
      "\<not> index_rejected (getProp (req_body req) ''exerciseIndex'')"
    using that
    by (simp add: handler_generate_strict_def try_strict_def catchGenerate_def finish_strict_def
        Let_def)
  have rejected: "req_method req = ''POST'' \<and> completion w = CompletionRejected \<longrightarrow>
      fst (handler_generate_supabase w req) = Responded 200 (Exercise (localFallback (Fin 1))) \<and>
      fst (handler_generate_hint w req) = Responded 200 (Exercise (localFallback (Fin 1))) \<and>
      fst (handler_generate_basic w req) = Responded 200 (Exercise (localFallback (Fin 1))) \<and>
      (\<not> index_rejected (getProp (req_body req) ''exerciseIndex'') \<longrightarrow>
         fst (handler_generate_strict w req) =
           Responded 200 (Exercise (localFallback_strict (Fin 1))))"
    by (simp add: handler_generate_supabase_def handler_generate_hint_def
        handler_generate_basic_def generate_rejected strict)
  have caught: "req_method req = ''POST'' \<and> tryGenerate prepare g w (req_body req) = (Inl e, calls) \<longrightarrow>
      generateExercise prepare g w req = (Responded 200 (Exercise (localFallback (Fin 1))), calls)"
    for prepare g e calls
    by (simp add: generateExercise_def catchGenerate_def)
  have caught_strict: "req_method req = ''POST'' \<and> try_strict w (req_body req) = (Inl e, calls) \<longrightarrow>
      handler_generate_strict w req =
        (Responded 200 (Exercise (localFallback_strict (Fin 1))), calls)" for e calls
    by (simp add: handler_generate_strict_def catchGenerate_def)
  show ?thesis
    by (intro conjI allI rejected caught_strict)
      (simp_all add: handler_generate_supabase_def handler_generate_hint_def
        handler_generate_basic_def caught)
qed

theorem outer_catch_answers_index_1_witness:
  "fst (handler_generate_supabase (sample_world CompletionRejected)
          (post [(''exerciseIndex'', JNum (Fin 3))])) =
     Responded 200 (Exercise (localFallback (Fin 1))) \<and>
   fst (handler_generate_hint (sample_world CompletionRejected)
          (post [(''exerciseIndex'', JNum (Fin 3))])) =
     Responded 200 (Exercise (localFallback (Fin 1))) \<and>
   fst (handler_generate_basic (sample_world CompletionRejected)
          (post [(''exerciseIndex'', JNum (Fin 3))])) =
     Responded 200 (Exercise (localFallback (Fin 1))) \<and>
   fst (handler_generate_strict (sample_world CompletionRejected)
          (post [(''exerciseIndex'', JNum (Fin 3))])) =
     Responded 200 (Exercise (localFallback_strict (Fin 1))) \<and>
   sanitizeExerciseIndex (getProp (req_body (post [(''exerciseIndex'', JNum (Fin 3))]))
     ''exerciseIndex'') = Inr (Fin 3) \<and>
   localFallback (Fin 1) \<noteq> localFallback (Fin 3) \<and>
   localFallback_strict (Fin 1) \<noteq> localFallback_strict (Fin 3)"
proof -
  let ?w = "sample_world CompletionRejected"
  let ?req = "post [(''exerciseIndex'', JNum (Fin 3))]"
  have pre: "req_method ?req = ''POST'' \<and> completion ?w = CompletionRejected"
    by (simp add: post_def sample_world_def)
  have idx: "\<not> index_rejected (getProp (req_body ?req) ''exerciseIndex'')"
    by (simp add: post_def index_rejected_def num_gt_def)
  have rest: "sanitizeExerciseIndex (getProp (req_body ?req) ''exerciseIndex'') = Inr (Fin 3) \<and>
      localFallback (Fin 1) \<noteq> localFallback (Fin 3) \<and>
      localFallback_strict (Fin 1) \<noteq> localFallback_strict (Fin 3)"
    by (simp add: post_def sanitize_fin localFallback_def localFallback_strict_def)
  from outer_catch_answers_index_1[of ?req ?w, THEN conjunct1, rule_format, OF pre] idx rest
  show ?thesis by blast
qed

subsection \<open>The completion that is rejected\<close>


lemma validateEvaluation_rejected:
  assumes "JSON_parse p s = r"
    and "r = Inl e \<or> (\<exists>parsed. r = Inr parsed \<and>
          (nullish parsed \<or> \<not> includes_val ALLOWED_RESULTS (getProp parsed ''result'') \<or>
           getProp parsed ''score'' = JUndefined \<or> getProp parsed ''feedbackSummary'' = JUndefined))"
  shows "catchGrade idx (validateEvaluation p idx s) = getFallbackEvaluation idx"
  using assms
  by (auto simp: validateEvaluation_def catchGrade_def Let_def nonblank_string_def
      split: sum.splits)

lemma gradeText_openai_rejected:
  assumes "JSON_parse p s = r"
    and "r = Inl e \<or> (\<exists>parsed. r = Inr parsed \<and>
          (nullish parsed \<or> \<not> includes_val ALLOWED_RESULTS (getProp parsed ''result'') \<or>
           getProp parsed ''score'' = JUndefined \<or> getProp parsed ''feedbackSummary'' = JUndefined))"
  shows "catchGrade idx (gradeText_openai p idx s) = getFallbackEvaluation idx"
  using assms
  by (auto simp: gradeText_openai_def catchGrade_def Let_def split: sum.splits)

lemma prepare_index:
  "prepare_supabase w b = (Inr g, calls) \<Longrightarrow>
     sanitizeExerciseIndex (getProp b ''exerciseIndex'') = Inr (gen_index g)"
  "prepare_hint w b = (Inr g, calls) \<Longrightarrow>
     sanitizeExerciseIndex (getProp b ''exerciseIndex'') = Inr (gen_index g)"
  "prepare_basic w b = (Inr g, calls) \<Longrightarrow>
     sanitizeExerciseIndex (getProp b ''exerciseIndex'') = Inr (gen_index g)"
  by (auto simp: prepare_supabase_def prepare_hint_def prepare_basic_def Let_def
      split: sum.splits if_splits)

lemma generateExercise_repairs:
  assumes "req_method req = ''POST''" "prepare w (req_body req) = (Inr g, calls)"
    and "completion w = CompletionText t"
  shows "(\<forall>e. JSON_parse (json_parse w) (rawContent t) = Inl e \<longrightarrow>
            generateExercise prepare guarded w req =
              (Responded 200 (Exercise (localFallback (gen_index g))), calls @ [CallCompletion])) \<and>
         (\<forall>parsed. JSON_parse (json_parse w) (rawContent t) = Inr parsed \<and> \<not> nullish parsed \<longrightarrow>
            generateExercise prepare guarded w req =
              (Responded 200 (Exercise
                 \<lparr>statement = (if nonblank_string (getProp parsed ''statement'')
                               then trim (str_of (getProp parsed ''statement''))
                               else statement (localFallback (gen_index g))),
                  exerciseType = (if includes_val allowedTypes (getProp parsed ''exerciseType'')
                                  then str_of (getProp parsed ''exerciseType'')
                                  else gen_hint g)\<rparr>),
               calls @ [CallCompletion]))"
  using generateExercise_prepared[where prepare = prepare, OF assms(1,2), of guarded] assms(3)
  by (simp add: finishExercise_parsed finishExercise_unparsable)


text \<open>
  Claim C5, as the code has it. In \<^verbatim>\<open>evaluateAnswer\<close> (the three variants), a
  completion that cannot be parsed, that parses to \<^verbatim>\<open>null\<close>, that lacks \<^verbatim>\<open>result\<close>,
  \<^verbatim>\<open>score\<close> or \<^verbatim>\<open>feedbackSummary\<close>, or whose result is outside the enumeration, is
  answered with the whole fallback record of the sanitized index. In \<^verbatim>\<open>generateExercise\<close>
  (the three variants that clamp the index) only a completion that cannot be parsed is
  answered with the whole fallback record of the sanitized index; a parsed one is repaired
  field by field: a missing or blank statement is replaced by the fallback's statement, a type
  outside the enumeration by the computed hint, and the other parsed field is kept.
\<close>

theorem rejected_completion:
  "(req_method req = ''POST'' \<and> evaluatePrologue (apiKey w) (req_body req) = Inr c \<and>
    \<not> prompt_throws c \<and> completion w = CompletionText (Some t) \<and> t \<noteq> [] \<and>
    (r = Inl e \<or>
     (\<exists>parsed. r = Inr parsed \<and>
        (nullish parsed \<or> \<not> includes_val ALLOWED_RESULTS (getProp parsed ''result'') \<or>
         getProp parsed ''score'' = JUndefined \<or>
         getProp parsed ''feedbackSummary'' = JUndefined))) \<longrightarrow>
    (fetchImage_gemini (image w) \<noteq> None \<and>
     JSON_parse (json_parse w) (cleanJsonText t) = r \<longrightarrow>
       handler_evaluate_gemini w req =
         (fallbackResponse (ctx_index c), [FetchImage (ctx_imageUrl c), CallCompletion])) \<and>
    (fetchImage_openai (image w) \<noteq> None \<and> JSON_parse (json_parse w) t = r \<longrightarrow>
       handler_evaluate_openai w req =
         (fallbackResponse (ctx_index c), [FetchImage (ctx_imageUrl c), CallCompletion])) \<and>
    (fetchImage_genai (image w) \<noteq> None \<and> JSON_parse (json_parse w) t = r \<longrightarrow>
       handler_evaluate_genai w req =
         (fallbackResponse (ctx_index c), [FetchImage (ctx_imageUrl c), CallCompletion]))) \<and>
   (req_method req = ''POST'' \<and> completion w = CompletionText t' \<longrightarrow>
    (\<forall>g calls. prepare_supabase w (req_body req) = (Inr g, calls) \<longrightarrow>
       sanitizeExerciseIndex (getProp (req_body req) ''exerciseIndex'') = Inr (gen_index g) \<and>
       (\<forall>e. JSON_parse (json_parse w) (rawContent t') = Inl e \<longrightarrow>
            handler_generate_supabase w req =
              (Responded 200 (Exercise (localFallback (gen_index g))), calls @ [CallCompletion])) \<and>
       (\<forall>parsed. JSON_parse (json_parse w) (rawContent t') = Inr parsed \<and> \<not> nullish parsed \<longrightarrow>
            handler_generate_supabase w req =
              (Responded 200 (Exercise
                 \<lparr>statement = (if nonblank_string (getProp parsed ''statement'')
                               then trim (str_of (getProp parsed ''statement''))
                               else statement (localFallback (gen_index g))),
                  exerciseType = (if includes_val allowedTypes (getProp parsed ''exerciseType'')
                                  then str_of (getProp parsed ''exerciseType'')
                                  else gen_hint g)\<rparr>),
               calls @ [CallCompletion]))) \<and>
    (\<forall>g calls. prepare_hint w (req_body req) = (Inr g, calls) \<longrightarrow>
       sanitizeExerciseIndex (getProp (req_body req) ''exerciseIndex'') = Inr (gen_index g) \<and>
       (\<forall>e. JSON_parse (json_parse w) (rawContent t') = Inl e \<longrightarrow>
            handler_generate_hint w req =
              (Responded 200 (Exercise (localFallback (gen_index g))), calls @ [CallCompletion])) \<and>
       (\<forall>parsed. JSON_parse (json_parse w) (rawContent t') = Inr parsed \<and> \<not> nullish parsed \<longrightarrow>
            handler_generate_hint w req =
              (Responded 200 (Exercise
                 \<lparr>statement = (if nonblank_string (getProp parsed ''statement'')
                               then trim (str_of (getProp parsed ''statement''))
                               else statement (localFallback (gen_index g))),
                  exerciseType = (if includes_val allowedTypes (getProp parsed ''exerciseType'')
                                  then str_of (getProp parsed ''exerciseType'')
                                  else gen_hint g)\<rparr>),
               calls @ [CallCompletion]))) \<and>
    (\<forall>g calls. prepare_basic w (req_body req) = (Inr g, calls) \<longrightarrow>
       sanitizeExerciseIndex (getProp (req_body req) ''exerciseIndex'') = Inr (gen_index g) \<and>
       (\<forall>e. JSON_parse (json_parse w) (rawContent t') = Inl e \<longrightarrow>
            handler_generate_basic w req =
              (Responded 200 (Exercise (localFallback (gen_index g))), calls @ [CallCompletion])) \<and>
       (\<forall>parsed. JSON_parse (json_parse w) (rawContent t') = Inr parsed \<and> \<not> nullish parsed \<longrightarrow>
            handler_generate_basic w req =
              (Responded 200 (Exercise
                 \<lparr>statement = (if nonblank_string (getProp parsed ''statement'')
                               then trim (str_of (getProp parsed ''statement''))
                               else statement (localFallback (gen_index g))),
                  exerciseType = (if includes_val allowedTypes (getProp parsed ''exerciseType'')
                                  then str_of (getProp parsed ''exerciseType'')
                                  else gen_hint g)\<rparr>),
               calls @ [CallCompletion]))))"
proof (intro conjI)
  show "req_method req = ''POST'' \<and> evaluatePrologue (apiKey w) (req_body req) = Inr c \<and>
    \<not> prompt_throws c \<and> completion w = CompletionText (Some t) \<and> t \<noteq> [] \<and>
    (r = Inl e \<or>
     (\<exists>parsed. r = Inr parsed \<and>
        (nullish parsed \<or> \<not> includes_val ALLOWED_RESULTS (getProp parsed ''result'') \<or>
         getProp parsed ''score'' = JUndefined \<or>
         getProp parsed ''feedbackSummary'' = JUndefined))) \<longrightarrow>
    (fetchImage_gemini (image w) \<noteq> None \<and>
     JSON_parse (json_parse w) (cleanJsonText t) = r \<longrightarrow>
       handler_evaluate_gemini w req =
         (fallbackResponse (ctx_index c), [FetchImage (ctx_imageUrl c), CallCompletion])) \<and>
    (fetchImage_openai (image w) \<noteq> None \<and> JSON_parse (json_parse w) t = r \<longrightarrow>
       handler_evaluate_openai w req =
         (fallbackResponse (ctx_index c), [FetchImage (ctx_imageUrl c), CallCompletion])) \<and>
    (fetchImage_genai (image w) \<noteq> None \<and> JSON_parse (json_parse w) t = r \<longrightarrow>
       handler_evaluate_genai w req =
         (fallbackResponse (ctx_index c), [FetchImage (ctx_imageUrl c), CallCompletion]))"
  proof (intro impI)
    assume h: "req_method req = ''POST'' \<and> evaluatePrologue (apiKey w) (req_body req) = Inr c \<and>
      \<not> prompt_throws c \<and> completion w = CompletionText (Some t) \<and> t \<noteq> [] \<and>
      (r = Inl e \<or>
       (\<exists>parsed. r = Inr parsed \<and>
          (nullish parsed \<or> \<not> includes_val ALLOWED_RESULTS (getProp parsed ''result'') \<or>
           getProp parsed ''score'' = JUndefined \<or>
           getProp parsed ''feedbackSummary'' = JUndefined)))"
    then have bad: "r = Inl e \<or>
       (\<exists>parsed. r = Inr parsed \<and>
          (nullish parsed \<or> \<not> includes_val ALLOWED_RESULTS (getProp parsed ''result'') \<or>
           getProp parsed ''score'' = JUndefined \<or>
           getProp parsed ''feedbackSummary'' = JUndefined))"
      by blast
    have reach: "evaluateAnswer fetchImage gradeText w req =
       (Responded 200
          (Evaluation (catchGrade (ctx_index c) (gradeText (json_parse w) (ctx_index c) t))),
        [FetchImage (ctx_imageUrl c), CallCompletion])"
      if "fetchImage (image w) \<noteq> None" for fetchImage gradeText
    proof -
      from that obtain img where "fetchImage (image w) = Some img" by auto
      with h show ?thesis
        by (intro evaluateAnswer_reached[where fetchImage = fetchImage and img = img]) simp_all
    qed
    show "(fetchImage_gemini (image w) \<noteq> None \<and>
       JSON_parse (json_parse w) (cleanJsonText t) = r \<longrightarrow>
         handler_evaluate_gemini w req =
           (fallbackResponse (ctx_index c), [FetchImage (ctx_imageUrl c), CallCompletion])) \<and>
      (fetchImage_openai (image w) \<noteq> None \<and> JSON_parse (json_parse w) t = r \<longrightarrow>
         handler_evaluate_openai w req =
           (fallbackResponse (ctx_index c), [FetchImage (ctx_imageUrl c), CallCompletion])) \<and>
      (fetchImage_genai (image w) \<noteq> None \<and> JSON_parse (json_parse w) t = r \<longrightarrow>
         handler_evaluate_genai w req =
           (fallbackResponse (ctx_index c), [FetchImage (ctx_imageUrl c), CallCompletion]))"
      using validateEvaluation_rejected[OF _ bad] gradeText_openai_rejected[OF _ bad]
      by (simp add: handler_evaluate_gemini_def handler_evaluate_openai_def
          handler_evaluate_genai_def reach gradeText_gemini_def gradeText_genai_def)
  qed
next
  show "req_method req = ''POST'' \<and> completion w = CompletionText t' \<longrightarrow>
    (\<forall>g calls. prepare_supabase w (req_body req) = (Inr g, calls) \<longrightarrow>
       sanitizeExerciseIndex (getProp (req_body req) ''exerciseIndex'') = Inr (gen_index g) \<and>
       (\<forall>e. JSON_parse (json_parse w) (rawContent t') = Inl e \<longrightarrow>
            handler_generate_supabase w req =
              (Responded 200 (Exercise (localFallback (gen_index g))), calls @ [CallCompletion])) \<and>
       (\<forall>parsed. JSON_parse (json_parse w) (rawContent t') = Inr parsed \<and> \<not> nullish parsed \<longrightarrow>
            handler_generate_supabase w req =
              (Responded 200 (Exercise
                 \<lparr>statement = (if nonblank_string (getProp parsed ''statement'')
                               then trim (str_of (getProp parsed ''statement''))
                               else statement (localFallback (gen_index g))),
                  exerciseType = (if includes_val allowedTypes (getProp parsed ''exerciseType'')
                                  then str_of (getProp parsed ''exerciseType'')
                                  else gen_hint g)\<rparr>),
               calls @ [CallCompletion]))) \<and>
    (\<forall>g calls. prepare_hint w (req_body req) = (Inr g, calls) \<longrightarrow>
       sanitizeExerciseIndex (getProp (req_body req) ''exerciseIndex'') = Inr (gen_index g) \<and>
       (\<forall>e. JSON_parse (json_parse w) (rawContent t') = Inl e \<longrightarrow>
            handler_generate_hint w req =
              (Responded 200 (Exercise (localFallback (gen_index g))), calls @ [CallCompletion])) \<and>
       (\<forall>parsed. JSON_parse (json_parse w) (rawContent t') = Inr parsed \<and> \<not> nullish parsed \<longrightarrow>
            handler_generate_hint w req =
              (Responded 200 (Exercise
                 \<lparr>statement = (if nonblank_string (getProp parsed ''statement'')
                               then trim (str_of (getProp parsed ''statement''))
                               else statement (localFallback (gen_index g))),
                  exerciseType = (if includes_val allowedTypes (getProp parsed ''exerciseType'')
                                  then str_of (getProp parsed ''exerciseType'')
                                  else gen_hint g)\<rparr>),
               calls @ [CallCompletion]))) \<and>
    (\<forall>g calls. prepare_basic w (req_body req) = (Inr g, calls) \<longrightarrow>
       sanitizeExerciseIndex (getProp (req_body req) ''exerciseIndex'') = Inr (gen_index g) \<and>
       (\<forall>e. JSON_parse (json_parse w) (rawContent t') = Inl e \<longrightarrow>
            handler_generate_basic w req =
              (Responded 200 (Exercise (localFallback (gen_index g))), calls @ [CallCompletion])) \<and>
       (\<forall>parsed. JSON_parse (json_parse w) (rawContent t') = Inr parsed \<and> \<not> nullish parsed \<longrightarrow>
            handler_generate_basic w req =
              (Responded 200 (Exercise
                 \<lparr>statement = (if nonblank_string (getProp parsed ''statement'')
                               then trim (str_of (getProp parsed ''statement''))
                               else statement (localFallback (gen_index g))),
                  exerciseType = (if includes_val allowedTypes (getProp parsed ''exerciseType'')
                                  then str_of (getProp parsed ''exerciseType'')
                                  else gen_hint g)\<rparr>),
               calls @ [CallCompletion])))"
    unfolding handler_generate_supabase_def handler_generate_hint_def handler_generate_basic_def
    by (intro impI conjI allI generateExercise_repairs[THEN conjunct1, rule_format]
        generateExercise_repairs[THEN conjunct2, rule_format])
      (auto dest: prepare_index)
qed


theorem rejected_completion_witness:
  "handler_evaluate_gemini (sample_world (CompletionText (Some ''not json''))) (post answer_fields) =
     (fallbackResponse (Fin 2), [FetchImage ''https://cdn.example/solution.png'', CallCompletion]) \<and>
   handler_evaluate_openai (sample_world (CompletionText (Some ''not json''))) (post answer_fields) =
     (fallbackResponse (Fin 2), [FetchImage ''https://cdn.example/solution.png'', CallCompletion]) \<and>
   handler_evaluate_genai (sample_world (CompletionText (Some ''not json''))) (post answer_fields) =
     (fallbackResponse (Fin 2), [FetchImage ''https://cdn.example/solution.png'', CallCompletion]) \<and>
   handler_generate_supabase (sample_world (CompletionText (Some ''not json'')))
     (post [(''exerciseIndex'', JNum (Fin 3))]) =
     (Responded 200 (Exercise (localFallback (Fin 3))), [QuerySubtopics, CallCompletion]) \<and>
   handler_generate_supabase (sample_world (CompletionText (Some type_only_text)))
     (post [(''exerciseIndex'', JNum (Fin 3))]) =
     (Responded 200 (Exercise \<lparr>statement = statement (localFallback (Fin 3)),
                               exerciseType = ''mixed_rules''\<rparr>),
      [QuerySubtopics, CallCompletion]) \<and>
   handler_generate_hint (sample_world (CompletionText (Some type_only_text)))
     (post [(''exerciseIndex'', JNum (Fin 3))]) =
     (Responded 200 (Exercise \<lparr>statement = statement (localFallback (Fin 3)),
                               exerciseType = ''mixed_rules''\<rparr>),
      [CallCompletion]) \<and>
   handler_generate_basic (sample_world (CompletionText (Some type_only_text)))
     (post [(''exerciseIndex'', JNum (Fin 3))]) =
     (Responded 200 (Exercise \<lparr>statement = statement (localFallback (Fin 3)),
                               exerciseType = ''mixed_rules''\<rparr>),
      [CallCompletion])"
proof -
  let ?w = "sample_world (CompletionText (Some ''not json''))"
  let ?req = "post answer_fields"
  let ?c = "\<lparr>ctx_index = Fin 2, ctx_imageUrl = ''https://cdn.example/solution.png'',
            ctx_subtopicName = JStr ''Derivadas'', ctx_difficulty = JStr ''medium''\<rparr>"
  have e0: "req_method ?req = ''POST'' \<and> evaluatePrologue (apiKey ?w) (req_body ?req) = Inr ?c \<and>
    \<not> prompt_throws ?c \<and> completion ?w = CompletionText (Some ''not json'') \<and> ''not json'' \<noteq> [] \<and>
    (Inl SyntaxError = Inl SyntaxError \<or>
     (\<exists>parsed. (Inl SyntaxError :: exn + jsval) = Inr parsed \<and>
        (nullish parsed \<or> \<not> includes_val ALLOWED_RESULTS (getProp parsed ''result'') \<or>
         getProp parsed ''score'' = JUndefined \<or>
         getProp parsed ''feedbackSummary'' = JUndefined)))"
    using sample_prologue[of "CompletionText (Some ''not json'')"]
    by (simp add: post_def prompt_throws_def sample_world_def)
  have e1: "fetchImage_gemini (image ?w) \<noteq> None \<and>
     JSON_parse (json_parse ?w) (cleanJsonText ''not json'') = Inl SyntaxError"
    "fetchImage_openai (image ?w) \<noteq> None \<and> JSON_parse (json_parse ?w) ''not json'' = Inl SyntaxError"
    "fetchImage_genai (image ?w) \<noteq> None \<and> JSON_parse (json_parse ?w) ''not json'' = Inl SyntaxError"
    by code_simp+
  note E = rejected_completion[where req = ?req and w = ?w and c = ?c and t = "''not json''"
      and r = "Inl SyntaxError" and e = SyntaxError, THEN conjunct1, rule_format, OF e0]
  let ?g = "post [(''exerciseIndex'', JNum (Fin 3))]"
  let ?v = "sample_world (CompletionText (Some type_only_text))"
  have g0: "req_method ?g = ''POST'' \<and> completion ?w = CompletionText (Some ''not json'')"
    "req_method ?g = ''POST'' \<and> completion ?v = CompletionText (Some type_only_text)"
    by (simp_all add: post_def sample_world_def)
  have g1: "prepare_supabase ?w (req_body ?g) =
      (Inr \<lparr>gen_index = Fin 3, gen_hint = ''applied_word_problem''\<rparr>, [QuerySubtopics])"
    "prepare_supabase ?v (req_body ?g) =
      (Inr \<lparr>gen_index = Fin 3, gen_hint = ''applied_word_problem''\<rparr>, [QuerySubtopics])"
    "prepare_hint ?v (req_body ?g) =
      (Inr \<lparr>gen_index = Fin 3, gen_hint = ''applied_word_problem''\<rparr>, [])"
    "prepare_basic ?v (req_body ?g) =
      (Inr \<lparr>gen_index = Fin 3, gen_hint = ''mixed_rules''\<rparr>, [])"
    by code_simp+
  have g2: "JSON_parse (json_parse ?w) (rawContent (Some ''not json'')) = Inl SyntaxError"
    "JSON_parse (json_parse ?v) (rawContent (Some type_only_text)) = Inr type_only_object \<and>
       \<not> nullish type_only_object"
    by code_simp+
  have g3: "\<not> nonblank_string (getProp type_only_object ''statement'')"
    "includes_val allowedTypes (getProp type_only_object ''exerciseType'')"
    "str_of (getProp type_only_object ''exerciseType'') = ''mixed_rules''"
    by code_simp+
  note G1 = rejected_completion[where req = ?g and w = ?w and t' = "Some ''not json''",
      THEN conjunct2, rule_format, OF g0(1)]
  note G2 = rejected_completion[where req = ?g and w = ?v and t' = "Some type_only_text",
      THEN conjunct2, rule_format, OF g0(2)]
  have s1: "handler_generate_supabase ?w ?g =
     (Responded 200 (Exercise (localFallback (Fin 3))), [QuerySubtopics, CallCompletion])"
    using G1[THEN conjunct1, rule_format, OF g1(1), THEN conjunct2, THEN conjunct1, rule_format,
        OF g2(1)]
    by simp
  have s2: "handler_generate_supabase ?v ?g =
     (Responded 200 (Exercise \<lparr>statement = statement (localFallback (Fin 3)),
                               exerciseType = ''mixed_rules''\<rparr>),
      [QuerySubtopics, CallCompletion])"
    using G2[THEN conjunct1, rule_format, OF g1(2), THEN conjunct2, THEN conjunct2, rule_format,
        OF g2(2)] g3
    by simp
  have s3: "handler_generate_hint ?v ?g =
     (Responded 200 (Exercise \<lparr>statement = statement (localFallback (Fin 3)),
                               exerciseType = ''mixed_rules''\<rparr>),
      [CallCompletion])"
    using G2[THEN conjunct2, THEN conjunct1, rule_format, OF g1(3), THEN conjunct2,
        THEN conjunct2, rule_format, OF g2(2)] g3
    by simp
  have s4: "handler_generate_basic ?v ?g =
     (Responded 200 (Exercise \<lparr>statement = statement (localFallback (Fin 3)),
                               exerciseType = ''mixed_rules''\<rparr>),
      [CallCompletion])"
    using G2[THEN conjunct2, THEN conjunct2, rule_format, OF g1(4), THEN conjunct2,
        THEN conjunct2, rule_format, OF g2(2)] g3
    by simp
  from E e1 s1 s2 s3 s4 show ?thesis by simp
qed

text \<open>A reply with the type \<^verbatim>\<open>quiz\<close> keeps its statement and gets the hint as type; a
  reply without statement keeps its type: neither answer is the fallback record of index 3.\<close>

theorem field_repair_counterexample:
  "handler_generate_supabase (sample_world (CompletionText (Some exercise_text)))
     (post [(''exerciseIndex'', JNum (Fin 3)), (''difficulty'', JStr ''hard'')]) =
     (Responded 200 (Exercise \<lparr>statement = ''Deriva x^2.'', exerciseType = ''exam_multi_step''\<rparr>),
      [QuerySubtopics, CallCompletion]) \<and>
   handler_generate_supabase (sample_world (CompletionText (Some type_only_text)))
     (post [(''exerciseIndex'', JNum (Fin 3))]) =
     (Responded 200 (Exercise \<lparr>statement = statement (localFallback (Fin 3)),
                               exerciseType = ''mixed_rules''\<rparr>),
      [QuerySubtopics, CallCompletion]) \<and>
   sanitizeExerciseIndex (JNum (Fin 3)) = Inr (Fin 3) \<and>
   statement (localFallback (Fin 3)) \<noteq> ''Deriva x^2.'' \<and>
   exerciseType (localFallback (Fin 3)) = ''applied_word_problem''"
  by code_simp

subsection \<open>The completion in a code fence\<close>


lemma dropWhile_keep: "xs = [] \<or> \<not> P (hd xs) \<Longrightarrow> dropWhile P xs = xs"
  by (cases xs) auto

lemma trim_keep: "s \<noteq> [] \<Longrightarrow> \<not> js_ws (hd s) \<Longrightarrow> \<not> js_ws (last s) \<Longrightarrow> trim s = s"
  by (simp add: trim_def dropWhile_keep hd_rev)

lemma ws_not_alpha: "js_ws c \<Longrightarrow> \<not> is_alpha c"
  by (auto simp: js_ws_def is_alpha_def Let_def)

lemma backtick_facts:
  "\<not> js_ws (CHR 0x60)" "\<not> json_ws (CHR 0x60)" "\<not> json_start (CHR 0x60)"
  "\<not> js_ws (CHR ''{'')" "\<not> js_ws (CHR ''}'')" "\<not> is_alpha (CHR ''{'')" "json_start (CHR ''{'')" "\<not> json_ws (CHR ''{'')"
  by (simp_all add: js_ws_def json_ws_def json_start_def is_digit_def is_alpha_def)

lemma braces_kept:
  "indexOf (CHR ''{'' # m @ ''}'') (CHR ''{'') = 0"
  "lastIndexOf (CHR ''{'' # m @ ''}'') (CHR ''}'') = int (length m) + 1"
  by (simp_all add: indexOf_def lastIndexOf_def)

lemma slice_whole: "slice s 0 (int (length s)) = s"
  by (simp add: slice_def)

lemma cleanJsonText_plain: "cleanJsonText (CHR ''{'' # m @ ''}'') = CHR ''{'' # m @ ''}''"
proof -
  let ?t = "CHR ''{'' # m @ ''}''"
  have tr: "trim ?t = ?t" by (rule trim_keep) (simp_all add: backtick_facts)
  have nf: "\<not> startsWith ?t fence" by (simp add: startsWith_def fence_def)
  have "slice ?t 0 (int (length m) + 1 + 1) = ?t"
    using slice_whole[of ?t] by (simp add: add.commute)
  then show ?thesis
    by (simp add: cleanJsonText_def tr nf braces_kept Let_def del: append.simps)
qed

lemma cleanJsonText_fenced:
  assumes "list_all is_alpha tag" "list_all js_ws ws1" "list_all js_ws ws2"
  shows "cleanJsonText (fence @ tag @ ws1 @ (CHR ''{'' # m @ ''}'') @ ws2 @ fence) = CHR ''{'' # m @ ''}''"
proof -
  let ?t = "CHR ''{'' # m @ ''}''"
  let ?s = "fence @ tag @ ws1 @ ?t @ ws2 @ fence"
  have tr: "trim ?s = ?s"
    by (rule trim_keep) (simp_all add: fence_def backtick_facts)
  have sw: "startsWith ?s fence" by (simp add: startsWith_def fence_def)
  have d3: "drop 3 ?s = tag @ ws1 @ ?t @ ws2 @ fence" by (simp add: fence_def)
  have a1: "dropWhile is_alpha (tag @ ws1 @ ?t @ ws2 @ fence) = dropWhile is_alpha (ws1 @ ?t @ ws2 @ fence)"
    using assms(1) by (intro dropWhile_append2) (simp add: list_all_iff)
  have a2: "dropWhile is_alpha (ws1 @ ?t @ ws2 @ fence) = ws1 @ ?t @ ws2 @ fence"
  proof (cases ws1)
    case Nil
    then show ?thesis by (simp add: backtick_facts)
  next
    case (Cons c cs)
    with assms(2) have "js_ws c" by simp
    then show ?thesis using Cons by (simp add: ws_not_alpha)
  qed
  have a3: "dropWhile js_ws (ws1 @ ?t @ ws2 @ fence) = dropWhile js_ws (?t @ ws2 @ fence)"
    using assms(2) by (intro dropWhile_append2) (simp add: list_all_iff)
  have a4: "dropWhile js_ws (?t @ ws2 @ fence) = ?t @ ws2 @ fence"
    by (simp add: backtick_facts)
  have op: "strip_fence_open ?s = ?t @ ws2 @ fence"
    unfolding strip_fence_open_def d3 a1 a2 a3 a4 ..
  have cl: "strip_fence_close (?t @ ws2 @ fence) = ?t @ ws2"
    by (simp add: strip_fence_close_def endsWith_def fence_def)
  have r1: "dropWhile js_ws (?t @ ws2) = ?t @ ws2" by (simp add: backtick_facts)
  have r2: "dropWhile js_ws (rev (?t @ ws2)) = rev ?t"
  proof -
    have "dropWhile js_ws (rev ws2 @ rev ?t) = dropWhile js_ws (rev ?t)"
      using assms(3) by (intro dropWhile_append2) (simp add: list_all_iff)
    then show ?thesis by (simp add: backtick_facts)
  qed
  have tr2: "trim (?t @ ws2) = ?t"
    unfolding trim_def r1 r2 by simp
  have "slice ?t 0 (int (length m) + 1 + 1) = ?t"
    using slice_whole[of ?t] by (simp add: add.commute)
  then show ?thesis
    unfolding cleanJsonText_def tr Let_def
    by (simp only: sw if_True op cl tr2) (simp add: braces_kept del: append.simps)
qed

lemma JSON_parse_fence: "JSON_parse p (fence @ s) = Inl SyntaxError"
  by (simp add: JSON_parse_def fence_def backtick_facts)

lemma JSON_parse_brace: "JSON_parse p (CHR ''{'' # s) = (case p (CHR ''{'' # s) of None \<Rightarrow> Inl SyntaxError | Some v \<Rightarrow> Inr v)"
  by (simp add: JSON_parse_def backtick_facts)


lemma completion_update:
  "apiKey (w\<lparr>completion := x\<rparr>) = apiKey w" "image (w\<lparr>completion := x\<rparr>) = image w"
  "json_parse (w\<lparr>completion := x\<rparr>) = json_parse w" "completion (w\<lparr>completion := x\<rparr>) = x"
  by simp_all

lemma evaluateAnswer_same_grade:
  assumes "t1 \<noteq> []" "t2 \<noteq> []"
    and "\<And>idx. gradeText (json_parse w) idx t1 = gradeText (json_parse w) idx t2"
  shows "evaluateAnswer fetchImage gradeText (w\<lparr>completion := CompletionText (Some t1)\<rparr>) req =
         evaluateAnswer fetchImage gradeText (w\<lparr>completion := CompletionText (Some t2)\<rparr>) req"
  using assms
  by (simp add: evaluateAnswer_def tryGrade_def cong: sum.case_cong option.case_cong if_cong)

text \<open>
  Claim C6, as the code has it. In the first Gemini variant of \<^verbatim>\<open>evaluateAnswer\<close>, a
  completion that is an object text (from a first \<^verbatim>\<open>{\<close> to a last \<^verbatim>\<open>}\<close>) wrapped in a code
  fence, with letters after the opening fence and white space around the text, is cleaned to
  the object text itself, as is the unwrapped text, so the handler answers both in the same
  way; when the object has an allowed result, the score \<^verbatim>\<open>"85"\<close> and a feedback that is
  not blank, the answer has the score 85. The OpenAI variant and the second Gemini variant
  parse the text as it is: a text that starts with a fence gets the fallback record.
\<close>

theorem fenced_reply_cleaned:
  "(list_all is_alpha tag \<and> list_all js_ws ws1 \<and> list_all js_ws ws2 \<longrightarrow>
      cleanJsonText (fence @ tag @ ws1 @ (CHR ''{'' # m @ ''}'') @ ws2 @ fence) = CHR ''{'' # m @ ''}'' \<and>
      cleanJsonText (CHR ''{'' # m @ ''}'') = CHR ''{'' # m @ ''}'' \<and>
      handler_evaluate_gemini
        (w\<lparr>completion := CompletionText (Some (fence @ tag @ ws1 @ (CHR ''{'' # m @ ''}'') @ ws2 @ fence))\<rparr>)
        req =
      handler_evaluate_gemini (w\<lparr>completion := CompletionText (Some (CHR ''{'' # m @ ''}''))\<rparr>) req \<and>
      (req_method req = ''POST'' \<and> evaluatePrologue (apiKey w) (req_body req) = Inr c \<and>
       fetchImage_gemini (image w) \<noteq> None \<and> \<not> prompt_throws c \<and>
       json_parse w (CHR ''{'' # m @ ''}'') = Some parsed \<and> \<not> nullish parsed \<and>
       getProp parsed ''result'' = JStr r \<and> r \<in> set ALLOWED_RESULTS \<and>
       getProp parsed ''score'' = JStr ''85'' \<and>
       getProp parsed ''feedbackSummary'' = JStr f \<and> trim f \<noteq> [] \<longrightarrow>
       handler_evaluate_gemini
         (w\<lparr>completion := CompletionText (Some (fence @ tag @ ws1 @ (CHR ''{'' # m @ ''}'') @ ws2 @ fence))\<rparr>)
         req =
         (Responded 200 (Evaluation \<lparr>result = r, score = Fin 85, feedbackSummary = trim f\<rparr>),
          [FetchImage (ctx_imageUrl c), CallCompletion]))) \<and>
   (req_method req = ''POST'' \<and> evaluatePrologue (apiKey w) (req_body req) = Inr c \<and>
    \<not> prompt_throws c \<longrightarrow>
      (fetchImage_openai (image w) \<noteq> None \<longrightarrow>
         handler_evaluate_openai (w\<lparr>completion := CompletionText (Some (fence @ s))\<rparr>) req =
           (fallbackResponse (ctx_index c), [FetchImage (ctx_imageUrl c), CallCompletion])) \<and>
      (fetchImage_genai (image w) \<noteq> None \<longrightarrow>
         handler_evaluate_genai (w\<lparr>completion := CompletionText (Some (fence @ s))\<rparr>) req =
           (fallbackResponse (ctx_index c), [FetchImage (ctx_imageUrl c), CallCompletion])))"
proof (intro conjI impI)
  assume a: "list_all is_alpha tag \<and> list_all js_ws ws1 \<and> list_all js_ws ws2"
  let ?t = "CHR ''{'' # m @ ''}''"
  let ?s = "fence @ tag @ ws1 @ ?t @ ws2 @ fence"
  show c1: "cleanJsonText ?s = ?t" using a by (intro cleanJsonText_fenced) simp_all
  show c2: "cleanJsonText ?t = ?t" by (rule cleanJsonText_plain)
  have ne: "?s \<noteq> []" "?t \<noteq> []" by (simp_all add: fence_def)
  show same: "handler_evaluate_gemini (w\<lparr>completion := CompletionText (Some ?s)\<rparr>) req =
      handler_evaluate_gemini (w\<lparr>completion := CompletionText (Some ?t)\<rparr>) req"
    unfolding handler_evaluate_gemini_def
    by (rule evaluateAnswer_same_grade[OF ne]) (simp only: gradeText_gemini_def c1 c2)
  assume h: "req_method req = ''POST'' \<and> evaluatePrologue (apiKey w) (req_body req) = Inr c \<and>
       fetchImage_gemini (image w) \<noteq> None \<and> \<not> prompt_throws c \<and>
       json_parse w (CHR ''{'' # m @ ''}'') = Some parsed \<and> \<not> nullish parsed \<and>
       getProp parsed ''result'' = JStr r \<and> r \<in> set ALLOWED_RESULTS \<and>
       getProp parsed ''score'' = JStr ''85'' \<and>
       getProp parsed ''feedbackSummary'' = JStr f \<and> trim f \<noteq> []"
  then obtain img where img: "fetchImage_gemini (image w) = Some img" by auto
  have n85: "stringToNumber ''85'' = Fin 85" by code_simp
  have p: "JSON_parse (json_parse w) ?t = Inr parsed"
    using h by (simp add: JSON_parse_brace)
  have v: "validateEvaluation (json_parse w) (ctx_index c) ?t =
     Inr \<lparr>result = r, score = Fin (of_int (max 0 (min 100 (round (85 :: rat))))),
          feedbackSummary = trim f\<rparr>"
    using h by (intro validateEvaluation_valid[OF p]) (simp_all add: n85)
  let ?w' = "w\<lparr>completion := CompletionText (Some ?t)\<rparr>"
  have "handler_evaluate_gemini ?w' req =
     (Responded 200
        (Evaluation (catchGrade (ctx_index c) (gradeText_gemini (json_parse ?w') (ctx_index c) ?t))),
      [FetchImage (ctx_imageUrl c), CallCompletion])"
    unfolding handler_evaluate_gemini_def
    using h img
    by (intro evaluateAnswer_reached[where fetchImage = fetchImage_gemini and img = img])
      simp_all
  then show "handler_evaluate_gemini (w\<lparr>completion := CompletionText (Some ?s)\<rparr>) req =
         (Responded 200 (Evaluation \<lparr>result = r, score = Fin 85, feedbackSummary = trim f\<rparr>),
          [FetchImage (ctx_imageUrl c), CallCompletion])"
    unfolding same by (simp add: gradeText_gemini_def c2 v catchGrade_def del: append.simps)
next
  assume h: "req_method req = ''POST'' \<and> evaluatePrologue (apiKey w) (req_body req) = Inr c \<and>
    \<not> prompt_throws c"
  assume "fetchImage_openai (image w) \<noteq> None"
  then obtain img where img: "fetchImage_openai (image w) = Some img" by auto
  let ?w' = "w\<lparr>completion := CompletionText (Some (fence @ s))\<rparr>"
  have "handler_evaluate_openai ?w' req =
     (Responded 200
        (Evaluation (catchGrade (ctx_index c) (gradeText_openai (json_parse ?w') (ctx_index c) (fence @ s)))),
      [FetchImage (ctx_imageUrl c), CallCompletion])"
    unfolding handler_evaluate_openai_def
    using h img
    by (intro evaluateAnswer_reached[where fetchImage = fetchImage_openai and img = img])
      (simp_all add: fence_def)
  then show "handler_evaluate_openai ?w' req =
           (fallbackResponse (ctx_index c), [FetchImage (ctx_imageUrl c), CallCompletion])"
    by (simp add: gradeText_openai_def JSON_parse_fence catchGrade_def)
next
  assume h: "req_method req = ''POST'' \<and> evaluatePrologue (apiKey w) (req_body req) = Inr c \<and>
    \<not> prompt_throws c"
  assume "fetchImage_genai (image w) \<noteq> None"
  then obtain img where img: "fetchImage_genai (image w) = Some img" by auto
  let ?w' = "w\<lparr>completion := CompletionText (Some (fence @ s))\<rparr>"
  have "handler_evaluate_genai ?w' req =
     (Responded 200
        (Evaluation (catchGrade (ctx_index c) (gradeText_genai (json_parse ?w') (ctx_index c) (fence @ s)))),
      [FetchImage (ctx_imageUrl c), CallCompletion])"
    unfolding handler_evaluate_genai_def
    using h img
    by (intro evaluateAnswer_reached[where fetchImage = fetchImage_genai and img = img])
      (simp_all add: fence_def)
  then show "handler_evaluate_genai ?w' req =
           (fallbackResponse (ctx_index c), [FetchImage (ctx_imageUrl c), CallCompletion])"
    by (simp add: gradeText_genai_def validateEvaluation_def JSON_parse_fence catchGrade_def)
qed


theorem fenced_reply_cleaned_witness:
  "cleanJsonText (fenced (reply_text (quoted ''85''))) = reply_text (quoted ''85'') \<and>
   cleanJsonText (reply_text (quoted ''85'')) = reply_text (quoted ''85'') \<and>
   handler_evaluate_gemini
     (sample_world (CompletionText (Some (fenced (reply_text (quoted ''85''))))))
     (post answer_fields) =
   handler_evaluate_gemini
     (sample_world (CompletionText (Some (reply_text (quoted ''85'')))))
     (post answer_fields) \<and>
   handler_evaluate_gemini
     (sample_world (CompletionText (Some (fenced (reply_text (quoted ''85''))))))
     (post answer_fields) =
     (Responded 200 (Evaluation \<lparr>result = ''correct'', score = Fin 85, feedbackSummary = ''ok''\<rparr>),
      [FetchImage ''https://cdn.example/solution.png'', CallCompletion]) \<and>
   handler_evaluate_openai
     (sample_world (CompletionText (Some (fenced (reply_text (quoted ''85''))))))
     (post answer_fields) =
     (fallbackResponse (Fin 2), [FetchImage ''https://cdn.example/solution.png'', CallCompletion]) \<and>
   handler_evaluate_genai
     (sample_world (CompletionText (Some (fenced (reply_text (quoted ''85''))))))
     (post answer_fields) =
     (fallbackResponse (Fin 2), [FetchImage ''https://cdn.example/solution.png'', CallCompletion])"
proof -
  let ?m = "reply_fields (quoted ''85'')"
  let ?lf = "[CHR 0x0A]"
  let ?w = "sample_world CompletionRejected"
  let ?req = "post answer_fields"
  let ?c = "\<lparr>ctx_index = Fin 2, ctx_imageUrl = ''https://cdn.example/solution.png'',
            ctx_subtopicName = JStr ''Derivadas'', ctx_difficulty = JStr ''medium''\<rparr>"
  let ?parsed = "reply_object (JStr ''85'')"
  have plain: "reply_text (quoted ''85'') = CHR ''{'' # ?m @ ''}''"
    by (simp add: reply_text_def)
  have upd: "?w\<lparr>completion := x\<rparr> = sample_world x" for x
    by (simp add: sample_world_def)
  have a: "list_all is_alpha ''json'' \<and> list_all js_ws ?lf \<and> list_all js_ws ?lf"
    by (simp add: is_alpha_def js_ws_def)
  have b: "req_method ?req = ''POST'' \<and> evaluatePrologue (apiKey ?w) (req_body ?req) = Inr ?c \<and>
       fetchImage_gemini (image ?w) \<noteq> None \<and> \<not> prompt_throws ?c \<and>
       json_parse ?w (CHR ''{'' # ?m @ ''}'') = Some ?parsed \<and> \<not> nullish ?parsed \<and>
       getProp ?parsed ''result'' = JStr ''correct'' \<and> ''correct'' \<in> set ALLOWED_RESULTS \<and>
       getProp ?parsed ''score'' = JStr ''85'' \<and>
       getProp ?parsed ''feedbackSummary'' = JStr '' ok '' \<and> trim '' ok '' \<noteq> []"
  proof -
    have b1: "req_method ?req = ''POST''" by (simp add: post_def)
    have b2: "fetchImage_gemini (image ?w) \<noteq> None \<and> \<not> prompt_throws ?c \<and>
       json_parse ?w (reply_text (quoted ''85'')) = Some ?parsed \<and> \<not> nullish ?parsed \<and>
       getProp ?parsed ''result'' = JStr ''correct'' \<and> ''correct'' \<in> set ALLOWED_RESULTS \<and>
       getProp ?parsed ''score'' = JStr ''85'' \<and>
       getProp ?parsed ''feedbackSummary'' = JStr '' ok '' \<and> trim '' ok '' \<noteq> []"
      by code_simp
    show ?thesis
      unfolding plain[symmetric] using b1 b2 sample_prologue[of CompletionRejected] by blast
  qed
  have d: "req_method ?req = ''POST'' \<and> evaluatePrologue (apiKey ?w) (req_body ?req) = Inr ?c \<and>
    \<not> prompt_throws ?c"
    using b by blast
  have f: "fetchImage_openai (image ?w) \<noteq> None" "fetchImage_genai (image ?w) \<noteq> None"
    by code_simp+
  have tr: "trim '' ok '' = ''ok''" by code_simp
  note th = fenced_reply_cleaned[where tag = "''json''" and ?ws1.0 = ?lf and ?ws2.0 = ?lf
      and m = ?m and w = ?w and req = ?req and c = ?c and parsed = ?parsed and r = "''correct''"
      and f = "'' ok ''" and s = "''json'' @ ?lf @ (CHR ''{'' # ?m @ ''}'') @ ?lf @ fence"]
  note A = th[THEN conjunct1, rule_format, OF a]
  note B = th[THEN conjunct2, rule_format, OF d]
  have r1: "cleanJsonText (fenced (reply_text (quoted ''85''))) = reply_text (quoted ''85'')"
    using A[THEN conjunct1] by (simp add: fenced_def plain)
  have r2: "cleanJsonText (reply_text (quoted ''85'')) = reply_text (quoted ''85'')"
    using A[THEN conjunct2, THEN conjunct1] by (simp add: plain)
  have r3: "handler_evaluate_gemini
     (sample_world (CompletionText (Some (fenced (reply_text (quoted ''85''))))))
     (post answer_fields) =
   handler_evaluate_gemini
     (sample_world (CompletionText (Some (reply_text (quoted ''85'')))))
     (post answer_fields)"
    using A[THEN conjunct2, THEN conjunct2, THEN conjunct1, unfolded upd]
    by (simp add: fenced_def plain)
  have r4: "handler_evaluate_gemini
     (sample_world (CompletionText (Some (fenced (reply_text (quoted ''85''))))))
     (post answer_fields) =
     (Responded 200 (Evaluation \<lparr>result = ''correct'', score = Fin 85, feedbackSummary = ''ok''\<rparr>),
      [FetchImage ''https://cdn.example/solution.png'', CallCompletion])"
    using A[THEN conjunct2, THEN conjunct2, THEN conjunct2, rule_format, OF b, unfolded upd tr]
    by (simp add: fenced_def plain)
  have r5: "handler_evaluate_openai
     (sample_world (CompletionText (Some (fenced (reply_text (quoted ''85''))))))
     (post answer_fields) =
     (fallbackResponse (Fin 2), [FetchImage ''https://cdn.example/solution.png'', CallCompletion])"
    using B[THEN conjunct1, rule_format, OF f(1), unfolded upd]
    by (simp add: fenced_def plain)
  have r6: "handler_evaluate_genai
     (sample_world (CompletionText (Some (fenced (reply_text (quoted ''85''))))))
     (post answer_fields) =
     (fallbackResponse (Fin 2), [FetchImage ''https://cdn.example/solution.png'', CallCompletion])"
    using B[THEN conjunct2, rule_format, OF f(2), unfolded upd]
    by (simp add: fenced_def plain)
  from r1 r2 r3 r4 r5 r6 show ?thesis by (intro conjI)
qed

text \<open>The second Gemini variant answers the fenced text with the fallback and the unwrapped
  text with the score 85; the OpenAI variant answers both with the fallback, as it does not
  convert a score given as a string.\<close>

theorem unfenced_variants_counterexample:
  "handler_evaluate_genai
     (sample_world (CompletionText (Some (fenced (reply_text (quoted ''85''))))))
     (post answer_fields) =
     (fallbackResponse (Fin 2), [FetchImage ''https://cdn.example/solution.png'', CallCompletion]) \<and>
   handler_evaluate_genai
     (sample_world (CompletionText (Some (reply_text (quoted ''85'')))))
     (post answer_fields) =
     (Responded 200 (Evaluation \<lparr>result = ''correct'', score = Fin 85, feedbackSummary = ''ok''\<rparr>),
      [FetchImage ''https://cdn.example/solution.png'', CallCompletion]) \<and>
   handler_evaluate_openai
     (sample_world (CompletionText (Some (fenced (reply_text (quoted ''85''))))))
     (post answer_fields) =
     (fallbackResponse (Fin 2), [FetchImage ''https://cdn.example/solution.png'', CallCompletion]) \<and>
   handler_evaluate_openai
     (sample_world (CompletionText (Some (reply_text (quoted ''85'')))))
     (post answer_fields) =
     (fallbackResponse (Fin 2), [FetchImage ''https://cdn.example/solution.png'', CallCompletion]) \<and>
   score (getFallbackEvaluation (Fin 2)) = Fin 60"
  by code_simp

end
